theory Spec2Isabelle
  imports Complex_Main
begin

section \<open>The facet separation oracle of MAXE (glp\_oracle.c)\<close>

text \<open>
  The module reads a polyhedron from a vlp file (\<open>load_vlp\<close>), checks the interior
  point (\<open>initialize_oracle\<close>) and answers separation queries (\<open>ask_oracle\<close>).

  It keeps its data in file-level variables: the glpk problem object \<open>P\<close>, the
  request and response buffers \<open>OracleData.overtex\<close> and \<open>OracleData.ofacet\<close>, the
  arrays \<open>vlp_objidx\<close>, \<open>vlp_lambda\<close>, \<open>vlp_init\<close>, the index \<open>lambda_idx\<close> and
  the call counter. They are the fields of one record that every function takes and
  returns. A C array is a list with the indices of the source, so an array that the
  source uses from index 1 has an unused element 0.

  The records of the state have the type of the numbers as a parameter. In
  \<open>ask_oracle\<close> and \<open>initialize_oracle\<close> a \<open>double\<close> is a \<open>real\<close>: arithmetic is
  exact, and states with the values \<open>inf\<close> or \<open>nan\<close> are outside the model of these
  two functions. \<open>load_vlp\<close> stores the numbers of the file as \<open>sscanf\<close> delivers
  them, so there a number is a \<open>double\<close> that can also be infinite or not a number.
  What the module calls but does not contain is a parameter:
  the simplex solver, \<open>round_to\<close>, the conversion \<open>%lg\<close> of \<open>sscanf\<close>, \<open>random\<close> and
  the success of \<open>calloc\<close>. The messages of \<open>report\<close> are left out; every return of
  \<open>ORACLE_FAIL\<close> and every return 1 of \<open>load_vlp\<close> follows a message of class
  \<open>R_fatal\<close>.
\<close>

subsection \<open>The part of glpk that the module uses\<close>

datatype glp_dir = GLP_MIN | GLP_MAX

datatype glp_bnd = GLP_FR | GLP_LO | GLP_UP | GLP_DB | GLP_FX

datatype glp_stat = GLP_UNDEF | GLP_FEAS | GLP_INFEAS | GLP_NOFEAS | GLP_OPT | GLP_UNBND

definition GLP_EBADB :: int where "GLP_EBADB = 1"
definition GLP_ESING :: int where "GLP_ESING = 2"
definition GLP_EFAIL :: int where "GLP_EFAIL = 5"

text \<open>
  The problem object: the data set through the \<open>glp_set_\<close> routines, and the solution
  that \<open>glp_simplex\<close> leaves behind for \<open>glp_get_status\<close>, \<open>glp_get_obj_val\<close> and
  \<open>glp_get_row_dual\<close>. \<open>mat j i\<close> is the coefficient of column \<open>j\<close> in row \<open>i\<close>.
  \<open>'n\<close> is the type of the numbers.
\<close>

record 'n glp_prob =
  n_rows :: nat
  n_cols :: nat
  obj_dir :: glp_dir
  obj_coef :: "nat \<Rightarrow> 'n"
  row_bnds :: "nat \<Rightarrow> glp_bnd \<times> 'n \<times> 'n"
  col_bnds :: "nat \<Rightarrow> glp_bnd \<times> 'n \<times> 'n"
  mat :: "nat \<Rightarrow> nat \<Rightarrow> 'n"
  sol_status :: glp_stat
  sol_obj_val :: 'n
  sol_row_dual :: "nat \<Rightarrow> 'n"

text \<open>What one run of the simplex solver reports.\<close>

record glp_solution =
  s_ret :: int
  s_status :: glp_stat
  s_obj_val :: real
  s_row_dual :: "nat \<Rightarrow> real"

text \<open>
  The solver is not part of the module. It is a parameter: \<open>solver k p\<close> is what the
  \<open>k\<close>-th call of \<open>glp_simplex\<close> of the process reports on the problem \<open>p\<close>. The number of
  the call stands for everything the solver keeps between calls (basis, scaling).
\<close>

type_synonym glp_solver = "nat \<Rightarrow> real glp_prob \<Rightarrow> glp_solution"

definition glp_create_prob :: "'n::zero glp_prob" where
  "glp_create_prob =
     \<lparr>n_rows = 0, n_cols = 0, obj_dir = GLP_MIN, obj_coef = (\<lambda>_. 0),
      row_bnds = (\<lambda>_. (GLP_FR, 0, 0)), col_bnds = (\<lambda>_. (GLP_FX, 0, 0)),
      mat = (\<lambda>_ _. 0), sol_status = GLP_UNDEF, sol_obj_val = 0,
      sol_row_dual = (\<lambda>_. 0)\<rparr>"

definition glp_add_cols :: "'n glp_prob \<Rightarrow> nat \<Rightarrow> 'n glp_prob" where
  "glp_add_cols p n = p\<lparr>n_cols := n_cols p + n\<rparr>"

definition glp_add_rows :: "'n glp_prob \<Rightarrow> nat \<Rightarrow> 'n glp_prob" where
  "glp_add_rows p n = p\<lparr>n_rows := n_rows p + n\<rparr>"

definition glp_set_col_bnds ::
  "'n glp_prob \<Rightarrow> nat \<Rightarrow> glp_bnd \<Rightarrow> 'n \<Rightarrow> 'n \<Rightarrow> 'n glp_prob" where
  "glp_set_col_bnds p j t lb ub = p\<lparr>col_bnds := (col_bnds p)(j := (t, lb, ub))\<rparr>"

definition glp_set_row_bnds ::
  "'n glp_prob \<Rightarrow> nat \<Rightarrow> glp_bnd \<Rightarrow> 'n \<Rightarrow> 'n \<Rightarrow> 'n glp_prob" where
  "glp_set_row_bnds p i t lb ub = p\<lparr>row_bnds := (row_bnds p)(i := (t, lb, ub))\<rparr>"

definition glp_set_obj_coef :: "'n glp_prob \<Rightarrow> nat \<Rightarrow> 'n \<Rightarrow> 'n glp_prob" where
  "glp_set_obj_coef p j v = p\<lparr>obj_coef := (obj_coef p)(j := v)\<rparr>"

definition glp_set_obj_dir :: "'n glp_prob \<Rightarrow> glp_dir \<Rightarrow> 'n glp_prob" where
  "glp_set_obj_dir p d = p\<lparr>obj_dir := d\<rparr>"

text \<open>
  \<open>glp_set_mat_col(P,j,len,ind,val)\<close> replaces column \<open>j\<close> by the entries
  \<open>val[1..len]\<close> in the rows \<open>ind[1..len]\<close>; every other entry of the column is zero.
  (glpk refuses a row index that occurs twice; the module never passes one.)
\<close>

definition glp_set_mat_col ::
  "'n::zero glp_prob \<Rightarrow> nat \<Rightarrow> nat \<Rightarrow> nat list \<Rightarrow> 'n list \<Rightarrow> 'n glp_prob" where
  "glp_set_mat_col p j len ind val =
     p\<lparr>mat := (mat p)(j := fold (\<lambda>k c. c(ind ! k := val ! k)) [1..<Suc len] (\<lambda>_. 0))\<rparr>"

definition glp_simplex ::
  "glp_solver \<Rightarrow> nat \<Rightarrow> real glp_prob \<Rightarrow> int \<times> real glp_prob" where
  "glp_simplex solver k p =
     (let s = solver k p
      in (s_ret s, p\<lparr>sol_status := s_status s, sol_obj_val := s_obj_val s,
                     sol_row_dual := s_row_dual s\<rparr>))"

definition glp_get_status :: "'n glp_prob \<Rightarrow> glp_stat" where
  "glp_get_status p = sol_status p"

definition glp_get_obj_val :: "'n glp_prob \<Rightarrow> 'n" where
  "glp_get_obj_val p = sol_obj_val p"

definition glp_get_row_dual :: "'n glp_prob \<Rightarrow> nat \<Rightarrow> 'n" where
  "glp_get_row_dual p i = sol_row_dual p i"

subsection \<open>Configuration and module state\<close>

text \<open>
  The configuration values read through \<open>PARAMS\<close>. \<open>RoundFacets\<close> and
  \<open>ShuffleMatrix\<close> are C integers used as truth values.
\<close>

record params =
  PolytopeEps :: real
  RoundFacets :: int
  ShuffleMatrix :: int

datatype oracle_code = ORACLE_OK | ORACLE_UNBND | ORACLE_EMPTY | ORACLE_LIMIT | ORACLE_FAIL

record 'n oracle_state =
  vrows :: nat
  vcols :: nat
  vobjs :: nat
  Direction :: int
  vvertex :: "'n list"
  vfacet :: "'n list"
  vlp_objidx :: "nat list"
  vlp_lambda :: "'n list"
  vlp_init :: "'n list"
  lambda_idx :: nat
  P :: "'n glp_prob"
  oracle_calls :: nat

subsection \<open>call\_glp: the solver call with its retries\<close>

text \<open>
  \<open>glp_sort_matrix\<close>, \<open>glp_scale_prob\<close>, \<open>glp_adv_basis\<close> and \<open>glp_term_out\<close> change
  nothing that the module reads back; their effect on the solver is part of the
  parameter \<open>solver\<close>. The clock readings are left out.
\<close>

definition simplex_call ::
  "glp_solver \<Rightarrow> real oracle_state \<Rightarrow> int \<times> real oracle_state" where
  "simplex_call solver st =
     (let (ret, p) = glp_simplex solver (oracle_calls st) (P st) in (ret, st\<lparr>P := p\<rparr>))"

definition call_glp :: "glp_solver \<Rightarrow> real oracle_state \<Rightarrow> int \<times> real oracle_state" where
  "call_glp solver st0 =
     (let st1 = st0\<lparr>oracle_calls := oracle_calls st0 + 1\<rparr>;
          (ret1, st2) = simplex_call solver st1;
          (ret2, st3) =
             (if ret1 = GLP_EBADB \<or> ret1 = GLP_ESING
              then simplex_call solver (st2\<lparr>oracle_calls := oracle_calls st2 + 1\<rparr>)
              else (ret1, st2))
      in if ret2 = GLP_EFAIL
         then simplex_call solver (st3\<lparr>oracle_calls := oracle_calls st3 + 1\<rparr>)
         else (ret2, st3))"

subsection \<open>ask\_oracle\<close>

text \<open>
  \<open>round_to\<close> (round.h) is not part of the module either; it is the parameter \<open>rnd\<close>.
  The source is cut into its three stages: the direction written into the lambda
  column, the case analysis on the solver's answer, and the facet equation with its
  two final checks. Each loop of the last stage is a function of its own.
\<close>

definition ask_direction :: "real oracle_state \<Rightarrow> real list" where
  "ask_direction st =
     (if vvertex st ! vobjs st = 0
      then fold (\<lambda>i a. a[i := 0 - vvertex st ! (i - 1)]) [1..<Suc (vobjs st)] (vlp_lambda st)
      else fold (\<lambda>i a. a[i := vlp_init st ! i - vvertex st ! (i - 1)])
             [1..<Suc (vobjs st)] (vlp_lambda st))"

definition facet_raw :: "real oracle_state \<Rightarrow> real list" where
  \<comment> \<open>\<open>for(i=1;i<=vobjs;i++) vfacet[i-1]=glp_get_row_dual(P,vlp_objidx[i]);\<close>\<close>
  "facet_raw st =
     fold (\<lambda>i f. f[i - 1 := glp_get_row_dual (P st) (vlp_objidx st ! i)])
       [1..<Suc (vobjs st)] (vfacet st)"

definition abs_sum :: "nat \<Rightarrow> real list \<Rightarrow> real" where
  \<comment> \<open>\<open>d=0.0; for(i=0;i<vobjs;i++) d += vfacet[i]<0 ? -vfacet[i]:vfacet[i];\<close>\<close>
  "abs_sum n f = fold (\<lambda>i d. d + (if f ! i < 0 then - (f ! i) else f ! i)) [0..<n] 0"

definition facet_scale :: "nat \<Rightarrow> real \<Rightarrow> real list \<Rightarrow> real list" where
  \<comment> \<open>\<open>for(i=0;i<vobjs;i++) vfacet[i] /= d;\<close>\<close>
  "facet_scale n d f = fold (\<lambda>i f. f[i := f ! i / d]) [0..<n] f"

definition facet_round :: "params \<Rightarrow> (real \<Rightarrow> real) \<Rightarrow> nat \<Rightarrow> real list \<Rightarrow> real list" where
  \<comment> \<open>\<open>if(PARAMS(RoundFacets)) for(i=0;i<vobjs;i++){ d=vfacet[i]; round_to(&d); vfacet[i]=d; }\<close>\<close>
  "facet_round cfg rnd n f =
     (if RoundFacets cfg \<noteq> 0 then fold (\<lambda>i f. f[i := rnd (f ! i)]) [0..<n] f else f)"

definition facet_offset ::
  "params \<Rightarrow> (real \<Rightarrow> real) \<Rightarrow> real \<Rightarrow> real oracle_state \<Rightarrow> real list \<Rightarrow> real" where
  \<comment> \<open>\<open>d=0.0; for(i=1;i<=vobjs;i++) d-=vfacet[i-1]*(vlp_init[i]-lambda*vlp_lambda[i]);
      if(PARAMS(RoundFacets)) round_to(&d);\<close>\<close>
  "facet_offset cfg rnd lambda st f =
     (let d = fold (\<lambda>i d. d - f ! (i - 1) * (vlp_init st ! i - lambda * vlp_lambda st ! i))
                [1..<Suc (vobjs st)] 0
      in if RoundFacets cfg \<noteq> 0 then rnd d else d)"

definition eval_vertex :: "real oracle_state \<Rightarrow> real list \<Rightarrow> real" where
  \<comment> \<open>\<open>d=0.0; for(i=0;i<=vobjs;i++) d+=vvertex[i]*vfacet[i];\<close>\<close>
  "eval_vertex st f = fold (\<lambda>i d. d + vvertex st ! i * f ! i) [0..<Suc (vobjs st)] 0"

definition eval_init :: "real oracle_state \<Rightarrow> real list \<Rightarrow> real" where
  \<comment> \<open>\<open>d=vfacet[vobjs]; for(i=1;i<=vobjs;i++) d+=vlp_init[i]*vfacet[i-1];\<close>\<close>
  "eval_init st f =
     fold (\<lambda>i d. d + vlp_init st ! i * f ! (i - 1)) [1..<Suc (vobjs st)] (f ! vobjs st)"

definition ask_facet ::
  "params \<Rightarrow> (real \<Rightarrow> real) \<Rightarrow> real \<Rightarrow> real oracle_state
     \<Rightarrow> oracle_code \<times> real oracle_state" where
  "ask_facet cfg rnd lambda st =
     (let n = vobjs st;
          f1 = facet_raw st;
          d = abs_sum n f1
      in if d < PolytopeEps cfg then (ORACLE_FAIL, st\<lparr>vfacet := f1\<rparr>)
         else
           let f3 = facet_round cfg rnd n (facet_scale n d f1);
               f4 = f3[n := facet_offset cfg rnd lambda st f3];
               st' = st\<lparr>vfacet := f4\<rparr>
           in if eval_vertex st f4 > 0 then (ORACLE_FAIL, st')
              else if eval_init st f4 < PolytopeEps cfg then (ORACLE_FAIL, st')
              else (ORACLE_OK, st'))"

definition ask_answer ::
  "params \<Rightarrow> (real \<Rightarrow> real) \<Rightarrow> int \<Rightarrow> real oracle_state
     \<Rightarrow> oracle_code \<times> real oracle_state" where
  "ask_answer cfg rnd ret st =
     (if ret \<noteq> 0 then (ORACLE_FAIL, st)
      else
        let stat = glp_get_status (P st)
        in if stat = GLP_UNBND
           then (if vvertex st ! vobjs st = 0 then (ORACLE_UNBND, st) else (ORACLE_FAIL, st))
           else if stat \<noteq> GLP_OPT then (ORACLE_FAIL, st)
           else
             let lambda = glp_get_obj_val (P st)
             in if lambda < 10 * PolytopeEps cfg then (ORACLE_FAIL, st)
                else if vvertex st ! vobjs st \<noteq> 0 \<and> lambda > 1 - PolytopeEps cfg
                then (if lambda > 1 + PolytopeEps cfg then (ORACLE_FAIL, st)
                      else (ORACLE_UNBND, st))
                else ask_facet cfg rnd lambda st)"

definition ask_oracle ::
  "params \<Rightarrow> (real \<Rightarrow> real) \<Rightarrow> glp_solver \<Rightarrow> real oracle_state
     \<Rightarrow> oracle_code \<times> real oracle_state" where
  "ask_oracle cfg rnd solver st0 =
     (let lam = ask_direction st0;
          st1 = st0\<lparr>vlp_lambda := lam,
                    P := glp_set_mat_col (P st0) (lambda_idx st0) (vobjs st0) (vlp_objidx st0) lam\<rparr>;
          (ret, st2) = call_glp solver st1
      in ask_answer cfg rnd ret st2)"

subsection \<open>initialize\_oracle\<close>

text \<open>
  \<open>set_oracle_parameters\<close> fills the parameter structure that every \<open>glp_simplex\<close> call
  receives; like the basis, it is part of the parameter \<open>solver\<close>.
\<close>

definition initialize_oracle ::
  "glp_solver \<Rightarrow> real oracle_state \<Rightarrow> oracle_code \<times> real oracle_state" where
  "initialize_oracle solver st0 =
     (let st1 = st0\<lparr>P := glp_set_obj_dir (P st0) GLP_MIN\<rparr>;
          (ret, st2) = call_glp solver st1
      in if ret \<noteq> 0 then (ORACLE_FAIL, st2)
         else
           let stat = glp_get_status (P st2)
           in if stat \<noteq> GLP_OPT
              then (if stat = GLP_NOFEAS then ORACLE_EMPTY else ORACLE_FAIL, st2)
              else (ORACLE_OK, st2\<lparr>P := glp_set_obj_dir (P st2) GLP_MAX\<rparr>))"

subsection \<open>nextline: reading one line of the vlp file\<close>

text \<open>
  The open file is the list of the characters not yet read; \<open>getc\<close> takes the first one
  and reports \<open>EOF\<close> on the empty list. \<open>inpline\<close> is the list of the characters stored
  so far, so the index \<open>i\<close> of the source is its length; the rest of the array holds
  the zero bytes of \<open>memset\<close>.
\<close>

definition MAX_LINELEN :: nat where
  "MAX_LINELEN = 80"

definition store :: "string \<Rightarrow> char \<Rightarrow> string" where
  \<comment> \<open>\<open>if(i<MAX_LINELEN){inpline[i]=ch; i++;}\<close>\<close>
  "store inp ch = (if length inp < MAX_LINELEN then inp @ [ch] else inp)"

definition to_lower :: "char \<Rightarrow> char" where
  \<comment> \<open>\<open>if('A'<=ch && ch<='Z') ch +='a'-'A';\<close>\<close>
  "to_lower ch =
     (if (of_char (CHR ''A'') :: nat) \<le> of_char ch \<and> (of_char ch :: nat) \<le> of_char (CHR ''Z'')
      then char_of ((of_char ch :: nat) + (of_char (CHR ''a'') - of_char (CHR ''A'')))
      else ch)"

fun nextline_from :: "string \<Rightarrow> bool \<Rightarrow> string \<Rightarrow> int \<times> string \<times> string" where
  "nextline_from inp sp [] = (if length inp > 0 then 1 else 0, inp, [])"
| "nextline_from inp sp (ch # f) =
     (if ch = CHR 0x0A then (if length inp = 0 then nextline_from inp False f else (1, inp, f))
      else if ch = CHR '' '' \<or> ch = CHR 0x09 then nextline_from inp True f
      else if (of_char ch :: nat) \<le> 0x20 \<or> (of_char ch :: nat) > 126
      then nextline_from inp sp f
      else nextline_from
             (store (if sp \<and> length inp > 0 then store inp (CHR '' '') else inp) (to_lower ch))
             False f)"

definition nextline :: "string \<Rightarrow> int \<times> string \<times> string" where
  "nextline f = nextline_from [] False f"

text \<open>Every call of \<open>nextline\<close> that returns 1 has taken at least one character.\<close>

lemma nextline_from_length:
  "length (snd (snd (nextline_from inp sp f))) \<le> length f"
  by (induction f arbitrary: inp sp) (auto simp: le_SucI)

lemma nextline_shorter:
  assumes "fst (nextline f) \<noteq> 0"
  shows "length (snd (snd (nextline f))) < length f"
proof (cases f)
  case Nil
  with assms show ?thesis by (simp add: nextline_def)
next
  case (Cons ch r)
  have "length (snd (snd (nextline_from inp sp (ch # r)))) \<le> length r" for inp sp
    using nextline_from_length [of _ _ r] by simp
  then show ?thesis by (simp add: Cons nextline_def less_Suc_eq_le del: nextline_from.simps)
qed

subsection \<open>The numbers that load\_vlp reads\<close>

text \<open>
  The conversion \<open>%lg\<close> also accepts \<open>inf\<close>, \<open>infinity\<close> and \<open>nan\<close>, and yields an
  infinite value for a numeral beyond the range of a \<open>double\<close>. So a number of the
  file is a real, one of the two infinities, or not a number. \<open>load_vlp\<close> compares
  such numbers (\<open><\<close>) and multiplies them by \<open>dir\<close>, which is 1 or -1; it does no
  other arithmetic. A comparison with a NaN is false. The product of finite values is
  taken exactly (by 1 or -1 it is exact in C as well).
\<close>

datatype double = Finite real | Pos_inf | Neg_inf | NaN

instantiation double :: zero
begin
definition zero_double_def: "0 = Finite 0"
instance ..
end

definition double_lt :: "double \<Rightarrow> double \<Rightarrow> bool" where
  \<comment> \<open>\<open>x < y\<close> on doubles\<close>
  "double_lt x y =
     (case x of
        NaN \<Rightarrow> False
      | Pos_inf \<Rightarrow> False
      | Neg_inf \<Rightarrow> (case y of NaN \<Rightarrow> False | Neg_inf \<Rightarrow> False | _ \<Rightarrow> True)
      | Finite a \<Rightarrow> (case y of Finite b \<Rightarrow> a < b | Pos_inf \<Rightarrow> True | _ \<Rightarrow> False))"

definition inf_times :: "real \<Rightarrow> double" where
  \<comment> \<open>the product of \<open>+inf\<close> and a finite value\<close>
  "inf_times a = (if 0 < a then Pos_inf else if a < 0 then Neg_inf else NaN)"

definition double_mul :: "double \<Rightarrow> double \<Rightarrow> double" where
  \<comment> \<open>\<open>x * y\<close> on doubles\<close>
  "double_mul x y =
     (case x of
        NaN \<Rightarrow> NaN
      | Finite a \<Rightarrow> (case y of NaN \<Rightarrow> NaN | Finite b \<Rightarrow> Finite (a * b)
                     | Pos_inf \<Rightarrow> inf_times a | Neg_inf \<Rightarrow> inf_times (- a))
      | Pos_inf \<Rightarrow> (case y of NaN \<Rightarrow> NaN | Finite b \<Rightarrow> inf_times b
                    | Pos_inf \<Rightarrow> Pos_inf | Neg_inf \<Rightarrow> Neg_inf)
      | Neg_inf \<Rightarrow> (case y of NaN \<Rightarrow> NaN | Finite b \<Rightarrow> inf_times (- b)
                    | Pos_inf \<Rightarrow> Neg_inf | Neg_inf \<Rightarrow> Pos_inf))"

subsection \<open>sscanf on the formats of load\_vlp\<close>

text \<open>
  \<open>sscanf\<close> belongs to the C library. The formats of \<open>load_vlp\<close> use literal
  characters, blanks and the conversions \<open>%d\<close>, \<open>%*d\<close>, \<open>%c\<close> and \<open>%lg\<close>. The model
  keeps the values assigned so far in a list; the return value is their number, or
  \<open>EOF = -1\<close> when the input ends before the first value is assigned. The conversion
  \<open>%lg\<close> is a parameter: it gets the input after the blanks and yields the value and
  the rest of the input, or nothing when no number starts there.

  \<open>%d\<close> stores into an \<open>int\<close> of 32 bits. For a numeral outside that range the C
  standard fixes no value; the model takes the one of the GNU C library on a 64-bit
  system: the digits are converted as \<open>strtol\<close> does, to a \<open>long\<close> that stops at
  \<open>LONG_MAX\<close> and \<open>LONG_MIN\<close>, and the \<open>int\<close> gets the low 32 bits of it. So
  \<open>4294967297\<close> is read as 1.
\<close>

datatype directive = Lit char | Ws | Conv_d | Skip_d | Conv_c | Conv_lg

datatype scanned = Int_val int | Chr_val char | Dbl_val double

fun parse_format :: "string \<Rightarrow> directive list" where
  "parse_format (a # b # c # r) =
     (if a = CHR ''%'' \<and> b = CHR ''*'' \<and> c = CHR ''d'' then Skip_d # parse_format r
      else if a = CHR ''%'' \<and> b = CHR ''l'' \<and> c = CHR ''g'' then Conv_lg # parse_format r
      else if a = CHR ''%'' \<and> b = CHR ''d'' then Conv_d # parse_format (c # r)
      else if a = CHR ''%'' \<and> b = CHR ''c'' then Conv_c # parse_format (c # r)
      else if a = CHR '' '' then Ws # parse_format (b # c # r)
      else Lit a # parse_format (b # c # r))"
| "parse_format [a, b] =
     (if a = CHR ''%'' \<and> b = CHR ''d'' then [Conv_d]
      else if a = CHR ''%'' \<and> b = CHR ''c'' then [Conv_c]
      else if a = CHR '' '' then Ws # parse_format [b]
      else Lit a # parse_format [b])"
| "parse_format [a] = (if a = CHR '' '' then [Ws] else [Lit a])"
| "parse_format [] = []"

definition isspace :: "char \<Rightarrow> bool" where
  "isspace c \<longleftrightarrow> c = CHR '' '' \<or> (9 \<le> (of_char c :: nat) \<and> (of_char c :: nat) \<le> 13)"

definition isdigit :: "char \<Rightarrow> bool" where
  "isdigit c \<longleftrightarrow> (of_char (CHR ''0'') :: nat) \<le> of_char c \<and> (of_char c :: nat) \<le> of_char (CHR ''9'')"

definition dec_value :: "string \<Rightarrow> nat" where
  "dec_value ds = foldl (\<lambda>n c. 10 * n + (of_char c - of_char (CHR ''0''))) 0 ds"

definition long_of :: "int \<Rightarrow> int" where
  \<comment> \<open>the result of \<open>strtol\<close> for a numeral of the value \<open>v\<close>: \<open>LONG_MAX = 2^63 - 1\<close> and
      \<open>LONG_MIN = -2^63\<close> beyond the range\<close>
  "long_of v =
     (if v > 9223372036854775807 then 9223372036854775807
      else if v < - 9223372036854775808 then - 9223372036854775808
      else v)"

definition int_of_long :: "int \<Rightarrow> int" where
  \<comment> \<open>\<open>(int) v\<close>: the low 32 bits as a signed number, \<open>(v + 2^31) mod 2^32 - 2^31\<close>\<close>
  "int_of_long v = (v + 2147483648) mod 4294967296 - 2147483648"

definition scan_d :: "string \<Rightarrow> (int \<times> string) option" where
  \<comment> \<open>an optional sign and at least one decimal digit\<close>
  "scan_d s =
     (let (neg, s1) = (case s of [] \<Rightarrow> (False, s)
                       | c # r \<Rightarrow> if c = CHR ''-'' then (True, r)
                                  else if c = CHR ''+'' then (False, r) else (False, s));
          ds = takeWhile isdigit s1
      in if ds = [] then None
         else Some (int_of_long
                      (long_of (if neg then - int (dec_value ds) else int (dec_value ds))),
                    dropWhile isdigit s1))"

definition input_failure :: "scanned list \<Rightarrow> int \<times> scanned list" where
  "input_failure vs = (if vs = [] then - 1 else int (length vs), vs)"

fun scan ::
  "(string \<Rightarrow> (double \<times> string) option) \<Rightarrow> directive list \<Rightarrow> string \<Rightarrow> scanned list
     \<Rightarrow> int \<times> scanned list" where
  "scan lg [] s vs = (int (length vs), vs)"
| "scan lg (Ws # ds) s vs = scan lg ds (dropWhile isspace s) vs"
| "scan lg (Lit c # ds) s vs =
     (case s of [] \<Rightarrow> input_failure vs
      | x # r \<Rightarrow> if x = c then scan lg ds r vs else (int (length vs), vs))"
| "scan lg (Conv_d # ds) s vs =
     (if dropWhile isspace s = [] then input_failure vs
      else case scan_d (dropWhile isspace s) of
             None \<Rightarrow> (int (length vs), vs)
           | Some (n, r) \<Rightarrow> scan lg ds r (vs @ [Int_val n]))"
| "scan lg (Skip_d # ds) s vs =
     (if dropWhile isspace s = [] then input_failure vs
      else case scan_d (dropWhile isspace s) of
             None \<Rightarrow> (int (length vs), vs)
           | Some (n, r) \<Rightarrow> scan lg ds r vs)"
| "scan lg (Conv_c # ds) s vs =
     (case s of [] \<Rightarrow> input_failure vs
      | x # r \<Rightarrow> scan lg ds r (vs @ [Chr_val x]))"
| "scan lg (Conv_lg # ds) s vs =
     (if dropWhile isspace s = [] then input_failure vs
      else case lg (dropWhile isspace s) of
             None \<Rightarrow> (int (length vs), vs)
           | Some (v, r) \<Rightarrow> scan lg ds r (vs @ [Dbl_val v]))"

definition sscanf ::
  "(string \<Rightarrow> (double \<times> string) option) \<Rightarrow> string \<Rightarrow> string \<Rightarrow> int \<times> scanned list" where
  "sscanf lg s fmt = scan lg (parse_format fmt) s []"

text \<open>The variable that the \<open>k\<close>-th conversion has assigned (\<open>k\<close> from 0).\<close>

definition int_at :: "scanned list \<Rightarrow> nat \<Rightarrow> int" where
  "int_at vs k = (case vs ! k of Int_val n \<Rightarrow> n | _ \<Rightarrow> 0)"

definition chr_at :: "scanned list \<Rightarrow> nat \<Rightarrow> char" where
  "chr_at vs k = (case vs ! k of Chr_val c \<Rightarrow> c | _ \<Rightarrow> CHR 0x00)"

definition dbl_at :: "scanned list \<Rightarrow> nat \<Rightarrow> double" where
  "dbl_at vs k = (case vs ! k of Dbl_val x \<Rightarrow> x | _ \<Rightarrow> 0)"

subsection \<open>load\_vlp\<close>

text \<open>
  What \<open>load_vlp\<close> takes from outside the program: the conversion \<open>%lg\<close>, the values
  that the calls of \<open>random\<close> return, and whether \<open>calloc\<close> finds the memory.
\<close>

record environment =
  scan_lg :: "string \<Rightarrow> (double \<times> string) option"
  random :: "nat \<Rightarrow> nat"
  calloc_ok :: bool

text \<open>
  The local variables \<open>rows\<close>, \<open>cols\<close>, \<open>objs\<close> and \<open>dir\<close> of \<open>load_vlp\<close>, the
  temporary arrays \<open>vlp_M\<close>, \<open>vlp_rowidx\<close> and \<open>vlp_colidx\<close>, and the module state.
\<close>

record loader =
  l_rows :: int
  l_cols :: int
  l_objs :: int
  l_dir :: double
  vlp_M :: "double list"
  vlp_rowidx :: "nat list"
  vlp_colidx :: "nat list"
  os :: "double oracle_state"

text \<open>Every \<open>report(R_fatal, ...); return 1;\<close> of \<open>load_vlp\<close> is one of these values.\<close>

datatype load_error =
    Cannot_open | Second_p_line | Wrong_p_line | Out_of_memory | Line_before_p char
  | Wrong_line char | Unknown_line | No_p_line | Init_not_positive nat

definition mrandom :: "nat \<Rightarrow> nat \<Rightarrow> nat" where
  \<comment> \<open>\<open>v<=1?0 : (random()&0x3fffffff)%v\<close>, with \<open>r\<close> the value of \<open>random()\<close>\<close>
  "mrandom r v = (if v \<le> 1 then 0 else (r mod 2 ^ 30) mod v)"

definition perm_array :: "(nat \<Rightarrow> nat) \<Rightarrow> nat \<Rightarrow> nat \<Rightarrow> nat list \<Rightarrow> nat list \<times> nat" where
  \<comment> \<open>\<open>k\<close> counts the calls of \<open>random\<close>; every round makes one, since \<open>len+1-i \<ge> 2\<close>\<close>
  "perm_array rand k0 len arr =
     fold (\<lambda>i (a, k). let j = i + mrandom (rand k) (len + 1 - i)
                       in (a[i := a ! j, j := a ! i], k + 1))
       [1..<len] (arr, k0)"

definition M_index :: "double oracle_state \<Rightarrow> nat \<Rightarrow> nat \<Rightarrow> nat" where
  \<comment> \<open>\<open>#define M(r,c) vlp_M[(r)+((c)-1)*(vrows+vobjs)-1]\<close>\<close>
  "M_index st r c = r + (c - 1) * (vrows st + vobjs st) - 1"

definition allocate_vlp ::
  "params \<Rightarrow> environment \<Rightarrow> int \<Rightarrow> int \<Rightarrow> int \<Rightarrow> loader \<Rightarrow> loader option" where
  "allocate_vlp cfg env rows cols objs ld =
     (if \<not> calloc_ok env then None
      else
        let r = nat rows; c = nat cols; ob = nat objs;
            rowidx0 = [0..<r + ob + 1];
            colidx0 = [0..<c + 2];
            (rowidx, k) = (if ShuffleMatrix cfg \<noteq> 0
                           then perm_array (random env) 0 (r + ob) rowidx0 else (rowidx0, 0));
            (colidx, k') = (if ShuffleMatrix cfg \<noteq> 0
                            then perm_array (random env) k (c + 1) colidx0 else (colidx0, k));
            objidx = fold (\<lambda>i a. a[i := rowidx ! (i + r)]) [1..<Suc ob] (replicate (ob + 1) 0)
        in Some (ld\<lparr>vlp_M := replicate ((r + ob) * (c + 1)) 0,
                     vlp_rowidx := rowidx, vlp_colidx := colidx,
                     os := (os ld)\<lparr>vrows := r, vcols := c, vobjs := ob,
                                    vfacet := replicate (ob + 2) 0,
                                    vvertex := replicate (ob + 2) 0,
                                    vlp_objidx := objidx,
                                    vlp_lambda := replicate (ob + 1) 0,
                                    vlp_init := replicate (ob + 1) 0,
                                    lambda_idx := colidx ! (c + 1)\<rparr>\<rparr>))"

definition vlp_type_ok :: "char \<Rightarrow> int \<Rightarrow> bool" where
  "vlp_type_ok ctrl parno =
     (if ctrl = CHR ''f'' then parno = 2
      else if ctrl = CHR ''u'' \<or> ctrl = CHR ''l'' \<or> ctrl = CHR ''s'' then parno = 3
      else if ctrl = CHR ''d'' then parno = 4
      else False)"

definition glp_type :: "char \<Rightarrow> glp_bnd option" where
  \<comment> \<open>\<open>None\<close> is the return value -1\<close>
  "glp_type ctrl =
     (if ctrl = CHR ''f'' then Some GLP_FR
      else if ctrl = CHR ''u'' then Some GLP_UP
      else if ctrl = CHR ''l'' then Some GLP_LO
      else if ctrl = CHR ''s'' then Some GLP_FX
      else if ctrl = CHR ''d'' then Some GLP_DB
      else None)"

definition line_p :: "params \<Rightarrow> environment \<Rightarrow> loader \<Rightarrow> string \<Rightarrow> load_error + loader" where
  "line_p cfg env ld inp =
     (if l_rows ld > 0 then Inl Second_p_line
      else
        let r1 = sscanf (scan_lg env) inp ''p vlp min %d %d %*d %d %*d'';
            r = (if fst r1 = 0
                 then sscanf (scan_lg env) inp ''p vlp max %d %d %*d %d %*d'' else r1);
            dir = (if fst r1 = 0 then Finite (- 1) else Finite 1);
            direction = (if fst r1 = 0 then 1 else 0);
            cnt = fst r; vs = snd r;
            rows = int_at vs 0; cols = int_at vs 1; objs = int_at vs 2
        in if cnt \<noteq> 3 \<or> rows \<le> 1 \<or> cols \<le> 1 \<or> objs < 1 then Inl Wrong_p_line
           else
             case allocate_vlp cfg env rows cols objs
                    (ld\<lparr>l_rows := rows, l_cols := cols, l_objs := objs, l_dir := dir,
                        os := (os ld)\<lparr>Direction := direction\<rparr>\<rparr>) of
               None \<Rightarrow> Inl Out_of_memory
             | Some ld1 \<Rightarrow>
                 Inr (ld1\<lparr>os := (os ld1)\<lparr>P :=
                   glp_set_col_bnds
                     (glp_add_rows (glp_add_cols (P (os ld1)) (nat cols + 1)) (nat rows + nat objs))
                     (lambda_idx (os ld1)) GLP_LO 0 0\<rparr>\<rparr>))"

definition line_j :: "environment \<Rightarrow> loader \<Rightarrow> string \<Rightarrow> load_error + loader" where
  "line_j env ld inp =
     (if l_rows ld = 0 then Inl (Line_before_p (CHR ''j''))
      else
        let r = sscanf (scan_lg env) inp ''j %d %c %lg %lg''; cnt = fst r; vs = snd r;
            j = int_at vs 0; ctrl = chr_at vs 1;
            b1 = (if cnt \<ge> 3 then dbl_at vs 2 else 0);
            b2 = (if cnt \<ge> 4 then dbl_at vs 3 else 0)
        in if cnt < 2 \<or> l_cols ld < j \<or> j < 1 \<or> \<not> vlp_type_ok ctrl cnt
           then Inl (Wrong_line (CHR ''j''))
           else
             case glp_type ctrl of
               None \<Rightarrow> Inl (Wrong_line (CHR ''j''))
             | Some t \<Rightarrow>
                 Inr (ld\<lparr>os := (os ld)\<lparr>P :=
                   glp_set_col_bnds (P (os ld)) (vlp_colidx ld ! nat j) t b1
                     (if cnt < 4 then b1 else b2)\<rparr>\<rparr>))"

definition line_i :: "environment \<Rightarrow> loader \<Rightarrow> string \<Rightarrow> load_error + loader" where
  "line_i env ld inp =
     (if l_rows ld = 0 then Inl (Line_before_p (CHR ''i''))
      else
        let r = sscanf (scan_lg env) inp ''i %d %c %lg %lg''; cnt = fst r; vs = snd r;
            i = int_at vs 0; ctrl = chr_at vs 1;
            b1 = (if cnt \<ge> 3 then dbl_at vs 2 else 0);
            b2 = (if cnt \<ge> 4 then dbl_at vs 3 else 0)
        in if cnt < 2 \<or> l_rows ld < i \<or> i < 1 \<or> \<not> vlp_type_ok ctrl cnt
           then Inl (Wrong_line (CHR ''i''))
           else
             case glp_type ctrl of
               None \<Rightarrow> Inl (Wrong_line (CHR ''i''))
             | Some t \<Rightarrow>
                 Inr (ld\<lparr>os := (os ld)\<lparr>P :=
                   glp_set_row_bnds (P (os ld)) (vlp_rowidx ld ! nat i) t b1
                     (if cnt < 4 then b1 else b2)\<rparr>\<rparr>))"

definition line_a :: "environment \<Rightarrow> loader \<Rightarrow> string \<Rightarrow> load_error + loader" where
  "line_a env ld inp =
     (if l_rows ld = 0 then Inl (Line_before_p (CHR ''a''))
      else
        let r = sscanf (scan_lg env) inp ''a %d %d %lg''; cnt = fst r; vs = snd r;
            i = int_at vs 0; j = int_at vs 1; p = dbl_at vs 2
        in if cnt \<noteq> 3 \<or> l_rows ld < i \<or> i < 1 \<or> l_cols ld < j \<or> j < 1
           then Inl (Wrong_line (CHR ''a''))
           else Inr (ld\<lparr>vlp_M := (vlp_M ld)
                  [M_index (os ld) (vlp_rowidx ld ! nat i) (vlp_colidx ld ! nat j) := p]\<rparr>))"

definition line_o :: "environment \<Rightarrow> loader \<Rightarrow> string \<Rightarrow> load_error + loader" where
  "line_o env ld inp =
     (if l_rows ld = 0 then Inl (Line_before_p (CHR ''o''))
      else
        let r = sscanf (scan_lg env) inp ''o %d %d %lg''; cnt = fst r; vs = snd r;
            i = int_at vs 0; j = int_at vs 1; p = dbl_at vs 2
        in if cnt \<noteq> 3 \<or> l_objs ld < i \<or> i < 1 \<or> l_cols ld < j \<or> j < 1
           then Inl (Wrong_line (CHR ''o''))
           else Inr (ld\<lparr>vlp_M := (vlp_M ld)
                  [M_index (os ld) (vlp_objidx (os ld) ! nat i) (vlp_colidx ld ! nat j)
                     := double_mul (l_dir ld) p]\<rparr>))"

definition line_x :: "environment \<Rightarrow> loader \<Rightarrow> string \<Rightarrow> load_error + loader" where
  "line_x env ld inp =
     (if l_rows ld = 0 then Inl (Line_before_p (CHR ''x''))
      else
        let r = sscanf (scan_lg env) inp ''x %d %lg''; cnt = fst r; vs = snd r;
            i = int_at vs 0; p = dbl_at vs 1
        in if cnt \<noteq> 2 \<or> l_objs ld < i \<or> i < 1
           then Inl (Wrong_line (CHR ''x''))
           else Inr (ld\<lparr>os := (os ld)\<lparr>vlp_init := (vlp_init (os ld))[nat i := p]\<rparr>\<rparr>))"

text \<open>
  The body of the loop, \<open>switch(inpline[0])\<close>. The cases \<open>c\<close> and \<open>e\<close> change nothing:
  the comment is only reported, and the \<open>break\<close> of case \<open>e\<close> leaves the \<open>switch\<close>,
  which is the whole body of the \<open>while\<close> loop, so the loop goes on with the next line.
\<close>

definition vlp_line :: "params \<Rightarrow> environment \<Rightarrow> loader \<Rightarrow> string \<Rightarrow> load_error + loader" where
  "vlp_line cfg env ld inp =
     (case inp of
        [] \<Rightarrow> Inl Unknown_line
      | c # _ \<Rightarrow>
          if c = CHR ''c'' then Inr ld
          else if c = CHR ''e'' then Inr ld
          else if c = CHR ''p'' then line_p cfg env ld inp
          else if c = CHR ''j'' then line_j env ld inp
          else if c = CHR ''i'' then line_i env ld inp
          else if c = CHR ''a'' then line_a env ld inp
          else if c = CHR ''o'' then line_o env ld inp
          else if c = CHR ''x'' then line_x env ld inp
          else Inl Unknown_line)"

function load_lines :: "params \<Rightarrow> environment \<Rightarrow> loader \<Rightarrow> string \<Rightarrow> load_error + loader" where
  "load_lines cfg env ld f =
     (if fst (nextline f) = 0 then Inr ld
      else case vlp_line cfg env ld (fst (snd (nextline f))) of
             Inl e \<Rightarrow> Inl e
           | Inr ld' \<Rightarrow> load_lines cfg env ld' (snd (snd (nextline f))))"
  by pat_completeness auto
termination
  by (relation "measure (\<lambda>(cfg, env, ld, f). length f)") (auto simp: nextline_shorter)

declare load_lines.simps [simp del]

text \<open>
  After the loop: the check of the interior point, the upload of the columns of \<open>M\<close>
  (all but the lambda column), the objective rows fixed to the interior point, and the
  objective "maximize lambda". The array passed to \<open>glp_set_mat_col\<close> for column \<open>j\<close>
  is \<open>&M(1,j)-1\<close>: its entry \<open>k\<close> is \<open>M(k,j)\<close>, and its entry 0 is not read.
\<close>

definition M_column :: "loader \<Rightarrow> nat \<Rightarrow> double list" where
  "M_column ld j =
     0 # map (\<lambda>k. vlp_M ld ! M_index (os ld) k j)
           [1..<Suc (vrows (os ld) + vobjs (os ld))]"

definition load_finish :: "params \<Rightarrow> loader \<Rightarrow> load_error + double oracle_state" where
  "load_finish cfg ld =
     (if l_rows ld = 0 then Inl No_p_line
      else
        case find (\<lambda>i. double_lt (vlp_init (os ld) ! i) (Finite (PolytopeEps cfg)))
               [1..<Suc (nat (l_objs ld))] of
          Some i \<Rightarrow> Inl (Init_not_positive i)
        | None \<Rightarrow>
            let st = os ld;
                m = nat (l_rows ld) + nat (l_objs ld);
                rowidx = [0..<m + 1];
                P1 = fold (\<lambda>j p. if j \<noteq> lambda_idx st
                                  then glp_set_mat_col p j m rowidx (M_column ld j) else p)
                       [1..<Suc (nat (l_cols ld) + 1)] (P st);
                P2 = fold (\<lambda>i p. glp_set_row_bnds p (vlp_objidx st ! i) GLP_FX
                                     (vlp_init st ! i) (vlp_init st ! i))
                       [1..<Suc (nat (l_objs ld))] P1;
                P3 = glp_set_obj_coef P2 (lambda_idx st) (Finite 1);
                P4 = glp_set_obj_dir P3 GLP_MAX
            in Inr (st\<lparr>P := P4\<rparr>))"

text \<open>
  The module state before \<open>load_vlp\<close>: no array is allocated and no call is counted.
  The file is \<open>None\<close> when \<open>fopen\<close> fails.
\<close>

definition module_start :: "double oracle_state" where
  "module_start =
     \<lparr>vrows = 0, vcols = 0, vobjs = 0, Direction = 0, vvertex = [], vfacet = [],
      vlp_objidx = [], vlp_lambda = [], vlp_init = [], lambda_idx = 0,
      P = glp_create_prob, oracle_calls = 0\<rparr>"

text \<open>
  The variables of \<open>load_vlp\<close> when the loop starts: \<open>rows=cols=objs=0\<close>, \<open>dir=1.0\<close>, and
  \<open>P = glp_create_prob()\<close>.
\<close>

definition loader_start :: loader where
  "loader_start =
     \<lparr>l_rows = 0, l_cols = 0, l_objs = 0, l_dir = Finite 1, vlp_M = [], vlp_rowidx = [],
      vlp_colidx = [], os = module_start\<lparr>P := glp_create_prob\<rparr>\<rparr>"

definition load_vlp ::
  "params \<Rightarrow> environment \<Rightarrow> string option \<Rightarrow> load_error + double oracle_state" where
  "load_vlp cfg env file =
     (case file of
        None \<Rightarrow> Inl Cannot_open
      | Some f \<Rightarrow>
          case load_lines cfg env loader_start f of
            Inl e \<Rightarrow> Inl e
          | Inr ld \<Rightarrow> load_finish cfg ld)"

definition load_vlp_ret :: "params \<Rightarrow> environment \<Rightarrow> string option \<Rightarrow> int" where
  \<comment> \<open>the return value of \<open>load_vlp\<close>\<close>
  "load_vlp_ret cfg env file = (case load_vlp cfg env file of Inl e \<Rightarrow> 1 | Inr st \<Rightarrow> 0)"

section \<open>Notions used in the statements\<close>

text \<open>\<open>keeps st st'\<close>: what a solver call leaves as it was.\<close>

definition keeps :: "real oracle_state \<Rightarrow> real oracle_state \<Rightarrow> bool" where
  "keeps st st' \<longleftrightarrow>
     vvertex st' = vvertex st \<and> vobjs st' = vobjs st \<and> vlp_init st' = vlp_init st \<and>
     vlp_lambda st' = vlp_lambda st \<and> vfacet st' = vfacet st \<and>
     vlp_objidx st' = vlp_objidx st \<and> lambda_idx st' = lambda_idx st \<and>
     mat (P st') = mat (P st) \<and> obj_dir (P st') = obj_dir (P st)"

text \<open>
  The answer of \<open>call_glp\<close> as \<open>ask_oracle\<close> sees it: the return code, and the status and
  objective value stored in the problem object.
\<close>

definition lp_ret :: "glp_solver \<Rightarrow> real oracle_state \<Rightarrow> int" where
  "lp_ret solver st =
     fst (call_glp solver
       (st\<lparr>vlp_lambda := ask_direction st,
           P := glp_set_mat_col (P st) (lambda_idx st) (vobjs st) (vlp_objidx st)
                  (ask_direction st)\<rparr>))"

definition lp_state :: "glp_solver \<Rightarrow> real oracle_state \<Rightarrow> real oracle_state" where
  "lp_state solver st =
     snd (call_glp solver
       (st\<lparr>vlp_lambda := ask_direction st,
           P := glp_set_mat_col (P st) (lambda_idx st) (vobjs st) (vlp_objidx st)
                  (ask_direction st)\<rparr>))"

definition lp_status :: "glp_solver \<Rightarrow> real oracle_state \<Rightarrow> glp_stat" where
  "lp_status solver st = glp_get_status (P (lp_state solver st))"

definition lp_lambda :: "glp_solver \<Rightarrow> real oracle_state \<Rightarrow> real" where
  "lp_lambda solver st = glp_get_obj_val (P (lp_state solver st))"

definition allocated :: "'n oracle_state \<Rightarrow> bool" where
  \<comment> \<open>the array sizes that \<open>allocate_vlp\<close> requests\<close>
  "allocated st \<longleftrightarrow>
     length (vfacet st) = vobjs st + 2 \<and> length (vvertex st) = vobjs st + 2 \<and>
     length (vlp_objidx st) = vobjs st + 1 \<and> length (vlp_lambda st) = vobjs st + 1 \<and>
     length (vlp_init st) = vobjs st + 1"

text \<open>The direction vector, entry by entry.\<close>

definition direction :: "real oracle_state \<Rightarrow> nat \<Rightarrow> real" where
  "direction st i =
     (if vvertex st ! vobjs st = 0 then - (vvertex st ! (i - 1))
      else vlp_init st ! i - vvertex st ! (i - 1))"


text \<open>The facet equation that \<open>ask_facet\<close> stores when it gets past the norm check.\<close>

definition facet_final ::
  "params \<Rightarrow> (real \<Rightarrow> real) \<Rightarrow> real \<Rightarrow> real oracle_state \<Rightarrow> real list" where
  "facet_final cfg rnd lambda st =
     (let n = vobjs st;
          f3 = facet_round cfg rnd n (facet_scale n (abs_sum n (facet_raw st)) (facet_raw st))
      in f3[n := facet_offset cfg rnd lambda st f3])"

text \<open>The call gets as far as reading the dual values.\<close>

definition reaches_facet :: "params \<Rightarrow> glp_solver \<Rightarrow> real oracle_state \<Rightarrow> bool" where
  "reaches_facet cfg solver st \<longleftrightarrow>
     lp_ret solver st = 0 \<and> lp_status solver st = GLP_OPT \<and>
     10 * PolytopeEps cfg \<le> lp_lambda solver st \<and>
     \<not> (vvertex st ! vobjs st \<noteq> 0 \<and> 1 - PolytopeEps cfg < lp_lambda solver st)"

text \<open>The answer of \<open>call_glp\<close> as \<open>initialize_oracle\<close> sees it.\<close>

definition init_ret :: "glp_solver \<Rightarrow> real oracle_state \<Rightarrow> int" where
  "init_ret solver st = fst (call_glp solver (st\<lparr>P := glp_set_obj_dir (P st) GLP_MIN\<rparr>))"

definition init_status :: "glp_solver \<Rightarrow> real oracle_state \<Rightarrow> glp_stat" where
  "init_status solver st =
     glp_get_status (P (snd (call_glp solver (st\<lparr>P := glp_set_obj_dir (P st) GLP_MIN\<rparr>))))"

text \<open>Problems that differ at most in the stored solution.\<close>

definition same_problem :: "real glp_prob \<Rightarrow> real glp_prob \<Rightarrow> bool" where
  "same_problem p q \<longleftrightarrow> obj_dir q = obj_dir p \<and> mat q = mat p"

text \<open>
  The line reader without the length limit: \<open>nextline_from\<close> with every store
  unconditional.
\<close>

fun unlimited_from :: "string \<Rightarrow> bool \<Rightarrow> string \<Rightarrow> int \<times> string \<times> string" where
  "unlimited_from inp sp [] = (if length inp > 0 then 1 else 0, inp, [])"
| "unlimited_from inp sp (ch # f) =
     (if ch = CHR 0x0A then (if length inp = 0 then unlimited_from inp False f else (1, inp, f))
      else if ch = CHR '' '' \<or> ch = CHR 0x09 then unlimited_from inp True f
      else if (of_char ch :: nat) \<le> 0x20 \<or> (of_char ch :: nat) > 126
      then unlimited_from inp sp f
      else unlimited_from
             ((if sp \<and> length inp > 0 then inp @ [CHR '' ''] else inp) @ [to_lower ch])
             False f)"

definition nextline_unlimited :: "string \<Rightarrow> int \<times> string \<times> string" where
  "nextline_unlimited f = unlimited_from [] False f"

text \<open>
  A normalised line: it does not start or end with a blank, it has no two blanks in a
  row, and all its characters are blanks or printable characters other than capital
  letters.
\<close>

fun merged :: "string \<Rightarrow> bool" where
  "merged [] \<longleftrightarrow> True"
| "merged [a] \<longleftrightarrow> True"
| "merged (a # b # r) \<longleftrightarrow> \<not> (a = CHR '' '' \<and> b = CHR '' '') \<and> merged (b # r)"

definition plain :: "char \<Rightarrow> bool" where
  "plain c \<longleftrightarrow> (33 \<le> (of_char c :: nat) \<and> (of_char c :: nat) \<le> 126) \<and>
     \<not> ((of_char (CHR ''A'') :: nat) \<le> of_char c \<and> (of_char c :: nat) \<le> of_char (CHR ''Z''))"

definition normalised :: "string \<Rightarrow> bool" where
  "normalised v \<longleftrightarrow>
     (v \<noteq> [] \<longrightarrow> hd v \<noteq> CHR '' '' \<and> last v \<noteq> CHR '' '') \<and> merged v \<and>
     (\<forall>c\<in>set v. c = CHR '' '' \<or> plain c)"

text \<open>The lines of a file, as the loop of \<open>load_vlp\<close> gets them from \<open>nextline\<close>.\<close>

function lines_of :: "string \<Rightarrow> string list" where
  "lines_of f =
     (if fst (nextline f) = 0 then []
      else fst (snd (nextline f)) # lines_of (snd (snd (nextline f))))"
  by pat_completeness auto
termination
  by (relation "measure length") (auto simp: nextline_shorter)

text \<open>The line is an \<open>x\<close> line whose index field reads \<open>i\<close>.\<close>

definition first_is :: "char \<Rightarrow> string \<Rightarrow> bool" where
  "first_is c l = (case l of [] \<Rightarrow> False | x # _ \<Rightarrow> x = c)"

definition sets_x :: "environment \<Rightarrow> string \<Rightarrow> nat \<Rightarrow> bool" where
  "sets_x env l i \<longleftrightarrow>
     first_is (CHR ''x'') l \<and> int_at (snd (sscanf (scan_lg env) l ''x %d %lg'')) 0 = int i"

declare lines_of.simps [simp del]

text \<open>The variables of \<open>load_vlp\<close> when the loop has read the whole file.\<close>

definition parsed :: "params \<Rightarrow> environment \<Rightarrow> string \<Rightarrow> loader" where
  "parsed cfg env f = projr (load_lines cfg env loader_start f)"

text \<open>What holds of the variables of \<open>load_vlp\<close> after every line.\<close>

definition inv_objs :: "loader \<Rightarrow> bool" where
  "inv_objs ld \<longleftrightarrow>
     0 \<le> l_rows ld \<and> mat (P (os ld)) = (\<lambda>_ _. 0) \<and>
     (l_rows ld \<noteq> 0 \<longrightarrow> 1 \<le> l_objs ld \<and> vobjs (os ld) = nat (l_objs ld))"

definition inv_unset :: "nat \<Rightarrow> loader \<Rightarrow> bool" where
  "inv_unset i ld \<longleftrightarrow>
     0 \<le> l_rows ld \<and> (l_rows ld \<noteq> 0 \<longrightarrow> i \<le> nat (l_objs ld) \<longrightarrow> vlp_init (os ld) ! i = 0)"

definition inv_arrays :: "loader \<Rightarrow> bool" where
  "inv_arrays ld \<longleftrightarrow>
     0 \<le> l_rows ld \<and>
     (l_rows ld \<noteq> 0 \<longrightarrow> allocated (os ld) \<and> distinct (tl (vlp_objidx (os ld))))"

text \<open>
  What the check \<open>vlp_init[i] < PolytopeEps\<close> lets through: a finite value that is at
  least the tolerance, the positive infinity, and a NaN.
\<close>

definition accepted :: "real \<Rightarrow> double \<Rightarrow> bool" where
  "accepted eps x =
     (case x of Finite r \<Rightarrow> eps \<le> r | Pos_inf \<Rightarrow> True | Neg_inf \<Rightarrow> False | NaN \<Rightarrow> True)"

text \<open>
  A state of \<open>ask_oracle\<close> and \<open>initialize_oracle\<close>, whose numbers are reals, as a
  state with the numbers of \<open>load_vlp\<close>: every number is the finite \<open>double\<close> of the
  same value.
\<close>

definition finite_prob :: "real glp_prob \<Rightarrow> double glp_prob" where
  "finite_prob p =
     \<lparr>n_rows = n_rows p, n_cols = n_cols p, obj_dir = obj_dir p,
      obj_coef = (\<lambda>j. Finite (obj_coef p j)),
      row_bnds = (\<lambda>i. case row_bnds p i of (t, lb, ub) \<Rightarrow> (t, Finite lb, Finite ub)),
      col_bnds = (\<lambda>j. case col_bnds p j of (t, lb, ub) \<Rightarrow> (t, Finite lb, Finite ub)),
      mat = (\<lambda>j i. Finite (mat p j i)), sol_status = sol_status p,
      sol_obj_val = Finite (sol_obj_val p),
      sol_row_dual = (\<lambda>i. Finite (sol_row_dual p i))\<rparr>"

definition finite_state :: "real oracle_state \<Rightarrow> double oracle_state" where
  "finite_state st =
     \<lparr>vrows = vrows st, vcols = vcols st, vobjs = vobjs st, Direction = Direction st,
      vvertex = map Finite (vvertex st), vfacet = map Finite (vfacet st),
      vlp_objidx = vlp_objidx st, vlp_lambda = map Finite (vlp_lambda st),
      vlp_init = map Finite (vlp_init st), lambda_idx = lambda_idx st,
      P = finite_prob (P st), oracle_calls = oracle_calls st\<rparr>"

subsection \<open>Concrete inputs\<close>

text \<open>
  A solver that gives the same report at every call, with the same dual value in every
  row. A loaded problem with one objective: two rows, two columns, the objective in
  row 3, lambda in column 3, the interior point 1. A loaded problem with two
  objectives in rows 3 and 4, lambda in column 3, the interior point \<open>(1/4, 1/4)\<close>.
\<close>

definition fixed_solver :: "int \<Rightarrow> glp_stat \<Rightarrow> real \<Rightarrow> real \<Rightarrow> glp_solver" where
  "fixed_solver ret stat lam dual =
     (\<lambda>k p. \<lparr>s_ret = ret, s_status = stat, s_obj_val = lam, s_row_dual = (\<lambda>_. dual)\<rparr>)"

definition ex_cfg :: params where
  "ex_cfg = \<lparr>PolytopeEps = 1 / 32, RoundFacets = 0, ShuffleMatrix = 0\<rparr>"

definition ex_round_cfg :: params where
  "ex_round_cfg = \<lparr>PolytopeEps = 1 / 32, RoundFacets = 1, ShuffleMatrix = 0\<rparr>"

definition ex_wide_cfg :: params where
  "ex_wide_cfg = \<lparr>PolytopeEps = 1 / 2, RoundFacets = 0, ShuffleMatrix = 0\<rparr>"

definition ex_state :: "real list \<Rightarrow> real oracle_state" where
  "ex_state q =
     \<lparr>vrows = 2, vcols = 2, vobjs = 1, Direction = 0, vvertex = q, vfacet = [0, 0, 0],
      vlp_objidx = [0, 3], vlp_lambda = [0, 0], vlp_init = [0, 1], lambda_idx = 3,
      P = glp_create_prob\<lparr>n_rows := 3, n_cols := 3, obj_dir := GLP_MAX\<rparr>,
      oracle_calls = 1\<rparr>"

definition ex2_state :: "real list \<Rightarrow> real oracle_state" where
  "ex2_state q =
     \<lparr>vrows = 2, vcols = 2, vobjs = 2, Direction = 0, vvertex = q, vfacet = [0, 0, 0, 0],
      vlp_objidx = [0, 3, 4], vlp_lambda = [0, 0, 0], vlp_init = [0, 1 / 4, 1 / 4],
      lambda_idx = 3,
      P = glp_create_prob\<lparr>n_rows := 4, n_cols := 3, obj_dir := GLP_MAX\<rparr>,
      oracle_calls = 1\<rparr>"

text \<open>
  Modelled from the spec: \<open>round_to\<close> is declared in round.h, which is not among the
  sources; the spec describes it as snapping a coefficient to the nearest "nice" rational
  value. \<open>snap m t\<close> is one such function, used only as a concrete instance of the
  parameter \<open>rnd\<close>: a value within \<open>t\<close> of a multiple of \<open>1/m\<close> becomes that
  multiple, every other value stays.
\<close>

definition snap :: "int \<Rightarrow> real \<Rightarrow> real \<Rightarrow> real" where
  "snap m t x =
     (let y = of_int (round (x * of_int m)) / of_int m in if \<bar>x - y\<bar> \<le> t then y else x)"

text \<open>A solver that answers as \<open>s\<close> on minimisation problems and as \<open>t\<close> on the others.\<close>

definition min_only :: "glp_solver \<Rightarrow> glp_solver \<Rightarrow> glp_solver" where
  "min_only s t = (\<lambda>k p. if obj_dir p = GLP_MIN then s k p else t k p)"

text \<open>
  An instance of the conversion \<open>%lg\<close>: decimal numbers with an optional sign, fraction
  and exponent, and the words \<open>nan\<close> and \<open>inf\<close> with an optional sign (\<open>nextline\<close> has
  turned capitals into small letters).
\<close>

definition decimal_real :: "string \<Rightarrow> (real \<times> string) option" where
  "decimal_real s =
     (let (neg, s1) = (case s of [] \<Rightarrow> (False, s)
                       | c # r \<Rightarrow> if c = CHR ''-'' then (True, r)
                                  else if c = CHR ''+'' then (False, r) else (False, s));
          ip = takeWhile isdigit s1;
          s2 = dropWhile isdigit s1;
          (fp, s3) = (case s2 of [] \<Rightarrow> ([], s2)
                      | c # r \<Rightarrow> if c = CHR ''.''
                                 then (takeWhile isdigit r, dropWhile isdigit r) else ([], s2))
      in if ip @ fp = [] then None
         else
           let mant = real (dec_value (ip @ fp)) / 10 ^ length fp;
               (ex, s4) = (case s3 of [] \<Rightarrow> (0, s3)
                           | c # r \<Rightarrow> if c = CHR ''e'' \<or> c = CHR ''E''
                                      then (case scan_d r of None \<Rightarrow> (0, s3)
                                            | Some (n, r') \<Rightarrow> (n, r'))
                                      else (0, s3));
               v = (if ex \<ge> 0 then mant * 10 ^ nat ex else mant / 10 ^ nat (- ex))
           in Some (if neg then - v else v, s4))"

definition decimal_lg :: "string \<Rightarrow> (double \<times> string) option" where
  "decimal_lg s =
     (let neg = (case s of [] \<Rightarrow> False | c # r \<Rightarrow> c = CHR ''-'');
          s1 = (case s of [] \<Rightarrow> s | c # r \<Rightarrow> if c = CHR ''-'' \<or> c = CHR ''+'' then r else s)
      in if take 3 s1 = ''nan'' then Some (NaN, drop 3 s1)
         else if take 3 s1 = ''inf'' then Some (if neg then Neg_inf else Pos_inf, drop 3 s1)
         else case decimal_real s of None \<Rightarrow> None | Some (v, r) \<Rightarrow> Some (Finite v, r))"

text \<open>
  An environment and three files: one objective whose interior-point coordinate is
  0.03125 = 1/32, the same problem without the \<open>x\<close> line, and the same problem with the
  coordinate \<open>nan\<close>.
\<close>

definition ex_env :: environment where
  "ex_env = \<lparr>scan_lg = decimal_lg, random = (\<lambda>k. 0), calloc_ok = True\<rparr>"

definition nl :: string where "nl = [CHR 0x0A]"

definition ex_file :: string where
  "ex_file =
     ''p vlp min 2 2 2 1 1'' @ nl @
     ''j 1 l 0'' @ nl @
     ''i 1 u 1'' @ nl @
     ''a 1 1 1'' @ nl @
     ''o 1 1 1'' @ nl @
     ''x 1 0.03125'' @ nl @
     ''e'' @ nl"

definition ex_file_unset :: string where
  "ex_file_unset =
     ''p vlp min 2 2 2 1 1'' @ nl @
     ''j 1 l 0'' @ nl @
     ''i 1 u 1'' @ nl @
     ''a 1 1 1'' @ nl @
     ''o 1 1 1'' @ nl @
     ''e'' @ nl"

definition ex_file_nan :: string where
  "ex_file_nan =
     ''p vlp min 2 2 2 1 1'' @ nl @
     ''j 1 l 0'' @ nl @
     ''i 1 u 1'' @ nl @
     ''a 1 1 1'' @ nl @
     ''o 1 1 1'' @ nl @
     ''x 1 nan'' @ nl @
     ''e'' @ nl"

text \<open>What the first file loads to, with real numbers.\<close>

definition ex_loaded :: "real oracle_state" where
  "ex_loaded =
     \<lparr>vrows = 2, vcols = 2, vobjs = 1, Direction = 0, vvertex = [0, 0, 0],
      vfacet = [0, 0, 0], vlp_objidx = [0, 3], vlp_lambda = [0, 0], vlp_init = [0, 1 / 32],
      lambda_idx = 3,
      P = \<lparr>n_rows = 3, n_cols = 3, obj_dir = GLP_MAX, obj_coef = (\<lambda>_. 0)(3 := 1),
           row_bnds = (\<lambda>_. (GLP_FR, 0, 0))(1 := (GLP_UP, 1, 1), 3 := (GLP_FX, 1 / 32, 1 / 32)),
           col_bnds = (\<lambda>_. (GLP_FX, 0, 0))(3 := (GLP_LO, 0, 0), 1 := (GLP_LO, 0, 0)),
           mat = (\<lambda>_ _. 0)(1 := (\<lambda>_. 0)(1 := 1, 3 := 1), 2 := (\<lambda>_. 0)),
           sol_status = GLP_UNDEF, sol_obj_val = 0, sol_row_dual = (\<lambda>_. 0)\<rparr>,
      oracle_calls = 0\<rparr>"

section \<open>Auxiliary lemmas\<close>

subsection \<open>What call\_glp leaves untouched\<close>

lemma keeps_calls: "keeps st st' \<Longrightarrow> keeps (st\<lparr>oracle_calls := k\<rparr>) st'"
  by (simp add: keeps_def)

lemma keeps_trans: "keeps a b \<Longrightarrow> keeps b c \<Longrightarrow> keeps a c"
  by (simp add: keeps_def)

lemma simplex_call_keeps: "simplex_call solver st = (ret, st') \<Longrightarrow> keeps st st'"
  by (auto simp: simplex_call_def glp_simplex_def keeps_def Let_def)

lemma simplex_call_calls_keeps:
  "simplex_call solver (st\<lparr>oracle_calls := k\<rparr>) = (ret, st') \<Longrightarrow> keeps st st'"
  by (auto simp: simplex_call_def glp_simplex_def keeps_def Let_def)

lemma call_glp_keeps:
  assumes "call_glp solver st = (ret, st')"
  shows "keeps st st'"
proof -
  obtain r1 s1 where a: "simplex_call solver (st\<lparr>oracle_calls := oracle_calls st + 1\<rparr>) = (r1, s1)"
    by (cases "simplex_call solver (st\<lparr>oracle_calls := oracle_calls st + 1\<rparr>)")
  obtain r2 s2 where b:
    "(if r1 = GLP_EBADB \<or> r1 = GLP_ESING
      then simplex_call solver (s1\<lparr>oracle_calls := oracle_calls s1 + 1\<rparr>)
      else (r1, s1)) = (r2, s2)"
    by (cases "if r1 = GLP_EBADB \<or> r1 = GLP_ESING
      then simplex_call solver (s1\<lparr>oracle_calls := oracle_calls s1 + 1\<rparr>)
      else (r1, s1)")
  have c: "(if r2 = GLP_EFAIL
      then simplex_call solver (s2\<lparr>oracle_calls := oracle_calls s2 + 1\<rparr>)
      else (r2, s2)) = (ret, st')"
    using assms a b by (simp add: call_glp_def Let_def)
  have k1: "keeps st s1" using a by (rule simplex_call_calls_keeps)
  have k2: "keeps s1 s2"
    using b by (auto split: if_splits dest: simplex_call_calls_keeps simp: keeps_def)
  have k3: "keeps s2 st'"
    using c by (auto split: if_splits dest: simplex_call_calls_keeps simp: keeps_def)
  show ?thesis using k1 k2 k3 by (blast intro: keeps_trans)
qed

lemma ask_oracle_eq:
  "ask_oracle cfg rnd solver st = ask_answer cfg rnd (lp_ret solver st) (lp_state solver st)"
  by (simp add: ask_oracle_def lp_ret_def lp_state_def Let_def split: prod.splits)

lemma lp_state_keeps:
  "vvertex (lp_state solver st) = vvertex st" "vobjs (lp_state solver st) = vobjs st"
  "vlp_init (lp_state solver st) = vlp_init st"
  "vlp_lambda (lp_state solver st) = ask_direction st"
  "vfacet (lp_state solver st) = vfacet st"
  "vlp_objidx (lp_state solver st) = vlp_objidx st"
  "lambda_idx (lp_state solver st) = lambda_idx st"
  unfolding lp_state_def
  by (cases "call_glp solver
       (st\<lparr>vlp_lambda := ask_direction st,
           P := glp_set_mat_col (P st) (lambda_idx st) (vobjs st) (vlp_objidx st)
                  (ask_direction st)\<rparr>)";
      use call_glp_keeps in \<open>fastforce simp: keeps_def\<close>)+

lemma fold_add_upt:
  fixes x :: real
  shows "fold (\<lambda>i d. d + g i) [a..<b] x = x + sum g {a..<b}"
proof (induction b)
  case 0
  show ?case by simp
next
  case (Suc b)
  show ?case
  proof (cases "a \<le> b")
    case True
    then have "{a..<Suc b} = insert b {a..<b}" by auto
    with True Suc show ?thesis by simp
  next
    case False
    then show ?thesis by simp
  qed
qed

lemma fold_sub_upt:
  fixes x :: real
  shows "fold (\<lambda>i d. d - g i) [a..<b] x = x - sum g {a..<b}"
proof -
  have "fold (\<lambda>i d. d - g i) [a..<b] x = fold (\<lambda>i d. d + (- g i)) [a..<b] x"
    by simp
  also have "\<dots> = x + sum (\<lambda>i. - g i) {a..<b}" by (rule fold_add_upt)
  finally show ?thesis by (simp add: sum_negf)
qed

lemma length_fold_update:
  "length (fold (\<lambda>i f. f[p i := v i f]) xs f) = length f"
  by (induction xs arbitrary: f) simp_all


lemma nth_fold_set_upt:
  "fold (\<lambda>i f. f[i := c i]) [a..<b] f ! j =
     (if a \<le> j \<and> j < b \<and> j < length f then c j else f ! j)"
proof (induction b arbitrary: j)
  case 0
  show ?case by simp
next
  case (Suc b)
  let ?F = "fold (\<lambda>i f. f[i := c i]) [a..<b] f"
  show ?case
  proof (cases "a \<le> b")
    case True
    have len: "length ?F = length f" by (rule length_fold_update)
    have step: "fold (\<lambda>i f. f[i := c i]) [a..<Suc b] f = ?F[b := c b]"
      using True by simp
    have Fb: "?F ! b = f ! b" using Suc [of b] by simp
    show ?thesis
    proof (cases "j = b")
      case eq: True
      show ?thesis
        by (cases "b < length f") (simp_all add: step len Fb True eq list_update_beyond)
    next
      case False
      then show ?thesis using Suc [of j] by (auto simp: step)
    qed
  next
    case False
    then show ?thesis by auto
  qed
qed



lemma length_ask_direction: "length (ask_direction st) = length (vlp_lambda st)"
  by (simp add: ask_direction_def length_fold_update)

lemma nth_ask_direction:
  assumes "1 \<le> i" "i \<le> vobjs st" "i < length (vlp_lambda st)"
  shows "ask_direction st ! i = direction st i"
  using assms
  by (simp add: ask_direction_def direction_def nth_fold_set_upt del: upt_Suc)

lemma ask_facet_OK:
  assumes "ask_facet cfg rnd lambda st = (ORACLE_OK, st')"
  shows "PolytopeEps cfg \<le> abs_sum (vobjs st) (facet_raw st)"
    and "vfacet st' = facet_final cfg rnd lambda st"
    and "eval_vertex st (facet_final cfg rnd lambda st) \<le> 0"
    and "PolytopeEps cfg \<le> eval_init st (facet_final cfg rnd lambda st)"
  using assms
  by (auto simp: ask_facet_def facet_final_def Let_def split: if_splits)

lemma ask_facet_not_inside: "fst (ask_facet cfg rnd lambda st) \<noteq> ORACLE_UNBND"
  by (simp add: ask_facet_def Let_def)

lemma ask_oracle_OK:
  assumes "ask_oracle cfg rnd solver st = (ORACLE_OK, st')"
  shows "ask_facet cfg rnd (lp_lambda solver st) (lp_state solver st) = (ORACLE_OK, st')"
    and "lp_ret solver st = 0" and "lp_status solver st = GLP_OPT"
    and "10 * PolytopeEps cfg \<le> lp_lambda solver st"
  using assms
  by (auto simp: ask_oracle_eq ask_answer_def lp_status_def lp_lambda_def Let_def
      split: if_splits)

lemma length_facet_raw: "length (facet_raw st) = length (vfacet st)"
  by (simp add: facet_raw_def length_fold_update)



lemma length_facet_scale: "length (facet_scale n d f) = length f"
  by (simp add: facet_scale_def length_fold_update)


lemma length_facet_round: "length (facet_round cfg rnd n f) = length f"
  by (simp add: facet_round_def length_fold_update)


lemma eval_vertex_eq: "eval_vertex st f = (\<Sum>i\<le>vobjs st. vvertex st ! i * f ! i)"
  by (simp add: eval_vertex_def fold_add_upt atLeast0LessThan lessThan_Suc_atMost
      del: upt_Suc sum.lessThan_Suc)

lemma eval_init_eq:
  "eval_init st f = f ! vobjs st + (\<Sum>i = 1..vobjs st. vlp_init st ! i * f ! (i - 1))"
  by (simp add: eval_init_def fold_add_upt atLeastLessThanSuc_atLeastAtMost
      del: upt_Suc)

lemma facet_offset_eq:
  "facet_offset cfg rnd lambda st f =
     (if RoundFacets cfg \<noteq> 0 then rnd else (\<lambda>x. x))
       (- (\<Sum>i = 1..vobjs st. f ! (i - 1) * (vlp_init st ! i - lambda * vlp_lambda st ! i)))"
  by (simp add: facet_offset_def Let_def fold_sub_upt atLeastLessThanSuc_atLeastAtMost
      del: upt_Suc)

lemma nth_facet_final_lt:
  "i < vobjs st \<Longrightarrow>
   facet_final cfg rnd lambda st ! i =
     facet_round cfg rnd (vobjs st)
       (facet_scale (vobjs st) (abs_sum (vobjs st) (facet_raw st)) (facet_raw st)) ! i"
  by (simp add: facet_final_def Let_def)

lemma nth_facet_final_last:
  "vobjs st < length (vfacet st) \<Longrightarrow>
   facet_final cfg rnd lambda st ! vobjs st =
     facet_offset cfg rnd lambda st
       (facet_round cfg rnd (vobjs st)
         (facet_scale (vobjs st) (abs_sum (vobjs st) (facet_raw st)) (facet_raw st)))"
  by (simp add: facet_final_def Let_def length_facet_round length_facet_scale length_facet_raw)

subsection \<open>Norm, lambda column and offset\<close>





lemma ask_oracle_reaches:
  "fst (ask_oracle cfg rnd solver st) = ORACLE_OK \<Longrightarrow> reaches_facet cfg solver st"
  by (auto simp: reaches_facet_def ask_oracle_eq ask_answer_def lp_status_def lp_lambda_def
      lp_state_keeps Let_def split: if_splits)


lemma fold_fun_upd_inj:
  assumes "inj_on (\<lambda>k. ind ! k) {a..<b}" "a \<le> i" "i < b"
  shows "fold (\<lambda>k c. c(ind ! k := val ! k)) [a..<b] c0 (ind ! i) = val ! i"
  using assms
proof (induction b)
  case 0
  then show ?case by simp
next
  case (Suc b)
  have step: "fold (\<lambda>k c. c(ind ! k := val ! k)) [a..<Suc b] c0 =
      (fold (\<lambda>k c. c(ind ! k := val ! k)) [a..<b] c0)(ind ! b := val ! b)"
    using Suc.prems by simp
  show ?case
  proof (cases "i = b")
    case True
    then show ?thesis using Suc.prems by (simp add: step)
  next
    case False
    then have ib: "i < b" using Suc.prems by simp
    have "ind ! b \<noteq> ind ! i"
    proof
      assume "ind ! b = ind ! i"
      moreover have "b \<in> {a..<Suc b}" "i \<in> {a..<Suc b}" using Suc.prems by auto
      ultimately have "b = i" using Suc.prems(1) by (auto dest: inj_onD)
      with False show False by simp
    qed
    moreover have "inj_on (\<lambda>k. ind ! k) {a..<b}"
      using Suc.prems(1) by (rule inj_on_subset) auto
    ultimately show ?thesis using Suc.IH Suc.prems(2) ib by (simp add: step)
  qed
qed

lemma distinct_tl_inj:
  assumes "distinct (tl xs)" "length xs = Suc n"
  shows "inj_on (\<lambda>k. xs ! k) {1..<Suc n}"
proof (rule inj_onI)
  fix i j assume i: "i \<in> {1..<Suc n}" and j: "j \<in> {1..<Suc n}" and eq: "xs ! i = xs ! j"
  have ti: "tl xs ! (i - 1) = xs ! i" and tj: "tl xs ! (j - 1) = xs ! j"
    using i j assms(2) by (auto simp: nth_tl)
  have li: "i - 1 < length (tl xs)" and lj: "j - 1 < length (tl xs)"
    using i j assms(2) by auto
  have "tl xs ! (i - 1) = tl xs ! (j - 1)" using ti tj eq by simp
  then have "i - 1 = j - 1"
    using nth_eq_iff_index_eq [OF assms(1) li lj] by simp
  then show "i = j" using i j by auto
qed

lemma ask_facet_keeps:
  "P (snd (ask_facet cfg rnd lambda st)) = P st"
  "vlp_lambda (snd (ask_facet cfg rnd lambda st)) = vlp_lambda st"
  by (simp_all add: ask_facet_def Let_def)

lemma ask_answer_keeps:
  "P (snd (ask_answer cfg rnd ret st)) = P st"
  "vlp_lambda (snd (ask_answer cfg rnd ret st)) = vlp_lambda st"
  by (simp_all add: ask_answer_def Let_def ask_facet_keeps)

lemma lp_state_mat:
  "mat (P (lp_state solver st)) =
   mat (glp_set_mat_col (P st) (lambda_idx st) (vobjs st) (vlp_objidx st) (ask_direction st))"
proof -
  let ?s1 = "st\<lparr>vlp_lambda := ask_direction st,
           P := glp_set_mat_col (P st) (lambda_idx st) (vobjs st) (vlp_objidx st)
                  (ask_direction st)\<rparr>"
  have "keeps ?s1 (lp_state solver st)"
    unfolding lp_state_def by (rule call_glp_keeps [of solver _ "fst (call_glp solver ?s1)"]) simp
  then show ?thesis by (simp add: keeps_def)
qed

subsection \<open>The solver only sees the problem data\<close>

lemma simplex_call_cong:
  assumes "\<And>k. s1 k (P st) = s2 k (P st)"
  shows "simplex_call s1 st = simplex_call s2 st"
  using assms by (simp add: simplex_call_def glp_simplex_def)

lemma simplex_call_same:
  "simplex_call s st = (r, st') \<Longrightarrow> same_problem (P st) (P st')"
  by (auto simp: simplex_call_def glp_simplex_def same_problem_def Let_def split: prod.splits)

lemma simplex_call_calls_cong:
  assumes "\<And>k p. same_problem q p \<Longrightarrow> s1 k p = s2 k p" "same_problem q (P st)"
  shows "simplex_call s1 (st\<lparr>oracle_calls := n\<rparr>) = simplex_call s2 (st\<lparr>oracle_calls := n\<rparr>)"
  using assms by (simp add: simplex_call_def glp_simplex_def)

lemma simplex_call_calls_same:
  assumes "simplex_call s (st\<lparr>oracle_calls := n\<rparr>) = (r, st')" "same_problem q (P st)"
  shows "same_problem q (P st')"
  using assms
  by (auto simp: simplex_call_def glp_simplex_def same_problem_def Let_def split: prod.splits)

lemma call_glp_cong:
  assumes agree: "\<And>k p. same_problem (P st) p \<Longrightarrow> s1 k p = s2 k p"
  shows "call_glp s1 st = call_glp s2 st"
proof -
  have p0: "same_problem (P st) (P st)" by (simp add: same_problem_def)
  let ?st1 = "st\<lparr>oracle_calls := oracle_calls st + 1\<rparr>"
  have e1: "simplex_call s1 ?st1 = simplex_call s2 ?st1"
    using agree p0 by (rule simplex_call_calls_cong)
  obtain r1 a where a: "simplex_call s2 ?st1 = (r1, a)" by (cases "simplex_call s2 ?st1")
  have pa: "same_problem (P st) (P a)" using a p0 by (rule simplex_call_calls_same)
  let ?a1 = "a\<lparr>oracle_calls := oracle_calls a + 1\<rparr>"
  have e2: "simplex_call s1 ?a1 = simplex_call s2 ?a1"
    using agree pa by (rule simplex_call_calls_cong)
  obtain r2 b where b: "simplex_call s2 ?a1 = (r2, b)" by (cases "simplex_call s2 ?a1")
  have pb: "same_problem (P st) (P b)" using b pa by (rule simplex_call_calls_same)
  have e3: "simplex_call s1 (b\<lparr>oracle_calls := oracle_calls b + 1\<rparr>)
      = simplex_call s2 (b\<lparr>oracle_calls := oracle_calls b + 1\<rparr>)"
    using agree pb by (rule simplex_call_calls_cong)
  have e3': "simplex_call s1 ?a1 = simplex_call s2 ?a1"
    using agree pa by (rule simplex_call_calls_cong)
  show ?thesis
  proof (cases "r1 = GLP_EBADB \<or> r1 = GLP_ESING")
    case True
    then show ?thesis using a b e1 e2 e3 by (simp add: call_glp_def Let_def)
  next
    case False
    then show ?thesis using a e1 e3' by (simp add: call_glp_def Let_def)
  qed
qed

subsection \<open>The line reader and its length limit\<close>

lemma store_take: "store (take MAX_LINELEN u) c = take MAX_LINELEN (u @ [c])"
  by (simp add: store_def min_def)

lemma take_empty_iff: "length (take MAX_LINELEN u) = 0 \<longleftrightarrow> length u = 0"
  by (cases u) (simp_all add: MAX_LINELEN_def)

lemma char_of_nat_eval:
  "char_of (n::nat) =
     Char (odd n) (odd (n div 2)) (odd (n div 4)) (odd (n div 8)) (odd (n div 16))
       (odd (n div 32)) (odd (n div 64)) (odd (n div 128))"
  by (simp add: char_of_def bit_iff_odd)

lemmas nextline_eval = nextline_def store_def to_lower_def MAX_LINELEN_def char_of_nat_eval

lemma store_store_take:
  "store (if sp \<and> 0 < length (take MAX_LINELEN u)
          then store (take MAX_LINELEN u) (CHR '' '') else take MAX_LINELEN u) c
   = take MAX_LINELEN ((if sp \<and> 0 < length u then u @ [CHR '' ''] else u) @ [c])"
proof -
  have pos: "0 < length (take MAX_LINELEN u) \<longleftrightarrow> 0 < length u"
    using take_empty_iff [of u] by auto
  show ?thesis
  proof (cases "sp \<and> 0 < length u")
    case True
    then have c1: "(sp \<and> 0 < length (take MAX_LINELEN u)) = True"
      and c2: "(sp \<and> 0 < length u) = True" using pos by simp_all
    show ?thesis unfolding c1 c2 if_True store_take by (rule refl)
  next
    case False
    then have c1: "(sp \<and> 0 < length (take MAX_LINELEN u)) = False"
      and c2: "(sp \<and> 0 < length u) = False" using pos by simp_all
    show ?thesis unfolding c1 c2 if_False store_take by (rule refl)
  qed
qed

lemma nextline_from_take:
  "nextline_from (take MAX_LINELEN u) sp f =
     (case unlimited_from u sp f of (r, v, f') \<Rightarrow> (r, take MAX_LINELEN v, f'))"
proof (induction f arbitrary: u sp)
  case Nil
  show ?case by (cases u) (simp_all add: MAX_LINELEN_def)
next
  case (Cons ch f)
  show ?case
    unfolding nextline_from.simps unlimited_from.simps store_store_take take_empty_iff Cons.IH
    by simp
qed

text \<open>Without the limit, every line comes out normalised.\<close>

lemma merged_append:
  "merged (xs @ ys) \<longleftrightarrow>
     merged xs \<and> merged ys \<and>
     \<not> (xs \<noteq> [] \<and> ys \<noteq> [] \<and> last xs = CHR '' '' \<and> hd ys = CHR '' '')"
proof (induction xs rule: merged.induct)
  case 1
  then show ?case by simp
next
  case (2 a)
  then show ?case by (cases ys) auto
next
  case (3 a b r)
  then show ?case by auto
qed

lemma to_lower_plain:
  assumes "\<not> ((of_char ch :: nat) \<le> 0x20 \<or> (of_char ch :: nat) > 126)"
  shows "plain (to_lower ch)"
proof (cases "(of_char (CHR ''A'') :: nat) \<le> of_char ch \<and> (of_char ch :: nat) \<le> of_char (CHR ''Z'')")
  case True
  then have "(of_char (to_lower ch) :: nat) = of_char ch + 32"
    by (simp add: to_lower_def)
  with True show ?thesis by (simp add: plain_def)
next
  case False
  then show ?thesis using assms by (simp add: to_lower_def plain_def)
qed

lemma plain_not_blank: "plain c \<Longrightarrow> c \<noteq> CHR '' ''"
  by (auto simp: plain_def)

lemma normalised_add:
  assumes "normalised inp" "plain c"
  shows "normalised ((if sp \<and> length inp > 0 then inp @ [CHR '' ''] else inp) @ [c])"
proof -
  have nb: "c \<noteq> CHR '' ''" using assms(2) by (rule plain_not_blank)
  show ?thesis
  proof (cases "inp = []")
    case True
    then show ?thesis using assms nb by (simp add: normalised_def)
  next
    case False
    then show ?thesis
      using assms nb by (cases sp) (auto simp: normalised_def merged_append)
  qed
qed

lemma unlimited_from_normalised:
  "normalised inp \<Longrightarrow> normalised (fst (snd (unlimited_from inp sp f)))"
proof (induction f arbitrary: inp sp)
  case Nil
  then show ?case by simp
next
  case (Cons ch f)
  show ?case
  proof (cases "ch = CHR 0x0A \<or> ch = CHR '' '' \<or> ch = CHR 0x09 \<or>
      (of_char ch :: nat) \<le> 0x20 \<or> (of_char ch :: nat) > 126")
    case True
    then show ?thesis using Cons by auto
  next
    case False
    then have p: "plain (to_lower ch)" by (intro to_lower_plain) simp
    have "normalised ((if sp \<and> length inp > 0 then inp @ [CHR '' ''] else inp) @ [to_lower ch])"
      using Cons.prems p by (rule normalised_add)
    then show ?thesis using False Cons.IH by simp
  qed
qed

lemma nextline_unlimited_normalised: "normalised (fst (snd (nextline_unlimited f)))"
  unfolding nextline_unlimited_def
  by (rule unlimited_from_normalised) (simp add: normalised_def)

subsection \<open>The loop of load\_vlp\<close>

lemma load_vlp_start:
  "load_vlp cfg env (Some f) =
     (case load_lines cfg env loader_start f of Inl e \<Rightarrow> Inl e | Inr ld \<Rightarrow> load_finish cfg ld)"
  by (simp add: load_vlp_def)

lemma load_lines_invariant:
  assumes "load_lines cfg env ld f = Inr ld'" and "I ld" and "\<forall>l\<in>set (lines_of f). Q l"
    and "\<And>ld l ld1. I ld \<Longrightarrow> Q l \<Longrightarrow> vlp_line cfg env ld l = Inr ld1 \<Longrightarrow> I ld1"
  shows "I ld'"
  using assms
proof (induction cfg env ld f rule: load_lines.induct)
  case (1 cfg env ld f)
  note step = "1.prems"(4)
  show ?case
  proof (cases "fst (nextline f) = 0")
    case True
    then show ?thesis using "1.prems"(1,2) by (simp add: load_lines.simps [of cfg env ld f])
  next
    case False
    let ?l = "fst (snd (nextline f))" and ?r = "snd (snd (nextline f))"
    have lines: "lines_of f = ?l # lines_of ?r"
      using False by (simp add: lines_of.simps [of f])
    obtain ld1 where l1: "vlp_line cfg env ld ?l = Inr ld1"
      and rest: "load_lines cfg env ld1 ?r = Inr ld'"
      using "1.prems"(1) False
      by (simp add: load_lines.simps [of cfg env ld f] split: sum.splits)
    have q: "Q ?l" using "1.prems"(3) lines by simp
    have i1: "I ld1" using "1.prems"(2) q l1 by (rule step)
    have qs: "\<forall>l\<in>set (lines_of ?r). Q l" using "1.prems"(3) lines by simp
    show ?thesis using False l1 rest i1 qs step by (rule "1.IH")
  qed
qed

text \<open>What one line can change.\<close>

lemma allocate_vlp_Some:
  assumes "allocate_vlp cfg env rows cols objs ld = Some ld1"
  shows "l_rows ld1 = l_rows ld \<and> l_objs ld1 = l_objs ld \<and> vobjs (os ld1) = nat objs \<and>
    vlp_init (os ld1) = replicate (nat objs + 1) 0 \<and> P (os ld1) = P (os ld)"
  using assms by (auto simp: allocate_vlp_def Let_def split: if_splits prod.splits)

lemma line_p_Inr:
  assumes "line_p cfg env ld l = Inr ld1"
  shows "l_rows ld \<le> 0 \<and> l_rows ld1 > 1 \<and> l_objs ld1 \<ge> 1 \<and> vobjs (os ld1) = nat (l_objs ld1) \<and>
    vlp_init (os ld1) = replicate (nat (l_objs ld1) + 1) 0 \<and>
    mat (P (os ld1)) = mat (P (os ld))"
proof -
  define r where "r = (if fst (sscanf (scan_lg env) l ''p vlp min %d %d %*d %d %*d'') = 0
     then sscanf (scan_lg env) l ''p vlp max %d %d %*d %d %*d''
     else sscanf (scan_lg env) l ''p vlp min %d %d %*d %d %*d'')"
  define dir :: double
    where "dir = (if fst (sscanf (scan_lg env) l ''p vlp min %d %d %*d %d %*d'') = 0
                  then Finite (- 1) else Finite 1)"
  define direction :: int
    where "direction = (if fst (sscanf (scan_lg env) l ''p vlp min %d %d %*d %d %*d'') = 0 then 1 else 0)"
  define rows cols objs where "rows = int_at (snd r) 0" and "cols = int_at (snd r) 1"
    and "objs = int_at (snd r) 2"
  define ld0 where "ld0 = ld\<lparr>l_rows := rows, l_cols := cols, l_objs := objs, l_dir := dir,
                        os := (os ld)\<lparr>Direction := direction\<rparr>\<rparr>"
  have unfold: "line_p cfg env ld l =
     (if l_rows ld > 0 then Inl Second_p_line
      else if fst r \<noteq> 3 \<or> rows \<le> 1 \<or> cols \<le> 1 \<or> objs < 1 then Inl Wrong_p_line
      else case allocate_vlp cfg env rows cols objs ld0 of
             None \<Rightarrow> Inl Out_of_memory
           | Some ld1 \<Rightarrow>
               Inr (ld1\<lparr>os := (os ld1)\<lparr>P :=
                 glp_set_col_bnds
                   (glp_add_rows (glp_add_cols (P (os ld1)) (nat cols + 1)) (nat rows + nat objs))
                   (lambda_idx (os ld1)) GLP_LO 0 0\<rparr>\<rparr>))"
    unfolding line_p_def Let_def r_def dir_def direction_def rows_def cols_def objs_def ld0_def
    by (rule refl)
  have r0: "l_rows ld \<le> 0" using assms unfolding unfold by (auto split: if_splits)
  have ok: "rows > 1" "objs \<ge> 1" using assms unfolding unfold by (auto split: if_splits)
  obtain la where la: "allocate_vlp cfg env rows cols objs ld0 = Some la"
    and ld1: "ld1 = la\<lparr>os := (os la)\<lparr>P :=
                 glp_set_col_bnds
                   (glp_add_rows (glp_add_cols (P (os la)) (nat cols + 1)) (nat rows + nat objs))
                   (lambda_idx (os la)) GLP_LO 0 0\<rparr>\<rparr>"
    using assms unfolding unfold by (auto split: if_splits option.splits)
  note a = allocate_vlp_Some [OF la]
  have f0: "l_rows ld0 = rows" "l_objs ld0 = objs" "P (os ld0) = P (os ld)"
    by (simp_all add: ld0_def)
  show ?thesis
    using r0 ok a f0
    by (simp add: ld1 glp_set_col_bnds_def glp_add_rows_def glp_add_cols_def)
qed

lemma line_j_Inr:
  assumes "line_j env ld l = Inr ld1"
  shows "l_rows ld1 = l_rows ld \<and> l_objs ld1 = l_objs ld \<and> vobjs (os ld1) = vobjs (os ld) \<and>
    vlp_init (os ld1) = vlp_init (os ld) \<and> mat (P (os ld1)) = mat (P (os ld))"
  using assms
  by (auto simp: line_j_def Let_def glp_set_col_bnds_def split: if_splits option.splits)

lemma line_i_Inr:
  assumes "line_i env ld l = Inr ld1"
  shows "l_rows ld1 = l_rows ld \<and> l_objs ld1 = l_objs ld \<and> vobjs (os ld1) = vobjs (os ld) \<and>
    vlp_init (os ld1) = vlp_init (os ld) \<and> mat (P (os ld1)) = mat (P (os ld))"
  using assms
  by (auto simp: line_i_def Let_def glp_set_row_bnds_def split: if_splits option.splits)

lemma line_a_Inr:
  assumes "line_a env ld l = Inr ld1"
  shows "l_rows ld1 = l_rows ld \<and> l_objs ld1 = l_objs ld \<and> os ld1 = os ld"
  using assms by (auto simp: line_a_def Let_def split: if_splits)

lemma line_o_Inr:
  assumes "line_o env ld l = Inr ld1"
  shows "l_rows ld1 = l_rows ld \<and> l_objs ld1 = l_objs ld \<and> os ld1 = os ld"
  using assms by (auto simp: line_o_def Let_def split: if_splits)

lemma line_x_Inr:
  assumes "line_x env ld l = Inr ld1"
  shows "l_rows ld1 = l_rows ld \<and> l_objs ld1 = l_objs ld \<and> vobjs (os ld1) = vobjs (os ld) \<and>
    P (os ld1) = P (os ld) \<and>
    (\<exists>p. vlp_init (os ld1) =
       (vlp_init (os ld))[nat (int_at (snd (sscanf (scan_lg env) l ''x %d %lg'')) 0) := p]) \<and>
    1 \<le> int_at (snd (sscanf (scan_lg env) l ''x %d %lg'')) 0"
  using assms by (auto simp: line_x_def Let_def split: if_splits)

text \<open>The cases of \<open>vlp_line\<close>.\<close>

lemma vlp_line_cases:
  assumes "vlp_line cfg env ld l = Inr ld1"
  shows "ld1 = ld \<or> line_p cfg env ld l = Inr ld1 \<or> line_j env ld l = Inr ld1 \<or>
    line_i env ld l = Inr ld1 \<or> line_a env ld l = Inr ld1 \<or> line_o env ld l = Inr ld1 \<or>
    (first_is (CHR ''x'') l \<and> line_x env ld l = Inr ld1)"
proof (cases l)
  case Nil
  with assms show ?thesis by (simp add: vlp_line_def)
next
  case (Cons c r)
  have f: "first_is (CHR ''x'') l \<longleftrightarrow> c = CHR ''x''" by (simp add: first_is_def Cons)
  have v: "vlp_line cfg env ld l =
     (if c = CHR ''c'' then Inr ld
      else if c = CHR ''e'' then Inr ld
      else if c = CHR ''p'' then line_p cfg env ld l
      else if c = CHR ''j'' then line_j env ld l
      else if c = CHR ''i'' then line_i env ld l
      else if c = CHR ''a'' then line_a env ld l
      else if c = CHR ''o'' then line_o env ld l
      else if c = CHR ''x'' then line_x env ld l
      else Inl Unknown_line)"
    unfolding vlp_line_def Cons by (simp only: list.case)
  show ?thesis using assms unfolding v f by (metis sum.distinct(1) sum.inject(2))
qed

lemma vlp_line_frame:
  assumes "vlp_line cfg env ld l = Inr ld1" and "0 \<le> l_rows ld"
  shows "0 \<le> l_rows ld1 \<and> mat (P (os ld1)) = mat (P (os ld)) \<and>
    (l_rows ld \<noteq> 0 \<longrightarrow> l_rows ld1 = l_rows ld \<and> l_objs ld1 = l_objs ld \<and>
        vobjs (os ld1) = vobjs (os ld)) \<and>
    (l_rows ld = 0 \<and> l_rows ld1 \<noteq> 0 \<longrightarrow>
        1 \<le> l_objs ld1 \<and> vobjs (os ld1) = nat (l_objs ld1) \<and>
        vlp_init (os ld1) = replicate (nat (l_objs ld1) + 1) 0)"
  using vlp_line_cases [OF assms(1)] assms(2)
  by (auto dest!: line_p_Inr line_j_Inr line_i_Inr line_a_Inr line_o_Inr line_x_Inr)

lemma vlp_line_init:
  assumes "vlp_line cfg env ld l = Inr ld1" and "0 < l_rows ld" and "\<not> sets_x env l i"
  shows "vlp_init (os ld1) ! i = vlp_init (os ld) ! i"
proof -
  have p: "line_p cfg env ld l \<noteq> Inr ld1" using line_p_Inr [of cfg env ld l ld1] assms(2) by auto
  from vlp_line_cases [OF assms(1)] p
  consider "ld1 = ld" | "line_j env ld l = Inr ld1" | "line_i env ld l = Inr ld1"
    | "line_a env ld l = Inr ld1" | "line_o env ld l = Inr ld1"
    | "first_is (CHR ''x'') l" "line_x env ld l = Inr ld1" by blast
  then show ?thesis
  proof cases
    case 6
    let ?k = "int_at (snd (sscanf (scan_lg env) l ''x %d %lg'')) 0"
    from line_x_Inr [OF 6(2)] obtain p where
      v: "vlp_init (os ld1) = (vlp_init (os ld))[nat ?k := p]" and k: "1 \<le> ?k" by blast
    have "?k \<noteq> int i" using assms(3) 6(1) by (simp add: sets_x_def)
    then have "nat ?k \<noteq> i" using k by auto
    then show ?thesis by (simp add: v)
  qed (auto dest!: line_j_Inr line_i_Inr line_a_Inr line_o_Inr)
qed

lemma nth_zeros: "i \<le> n \<Longrightarrow> (0 # replicate n (0::double)) ! i = 0"
  by (cases i) simp_all

lemma inv_objs_step:
  "inv_objs ld \<Longrightarrow> True \<Longrightarrow> vlp_line cfg env ld l = Inr ld1 \<Longrightarrow> inv_objs ld1"
  using vlp_line_frame [of cfg env ld l ld1] by (auto simp: inv_objs_def)

lemma inv_unset_step:
  assumes "inv_unset i ld" and "\<not> sets_x env l i" and "vlp_line cfg env ld l = Inr ld1"
  shows "inv_unset i ld1"
proof (cases "l_rows ld = 0")
  case True
  then show ?thesis
    using vlp_line_frame [OF assms(3)] assms(1) by (auto simp: inv_unset_def nth_zeros)
next
  case False
  then have pos: "0 < l_rows ld" using assms(1) by (simp add: inv_unset_def)
  show ?thesis
    using vlp_line_frame [OF assms(3)] vlp_line_init [OF assms(3) pos assms(2)] assms(1) False
    by (auto simp: inv_unset_def)
qed

lemma inv_objs_start: "inv_objs loader_start"
  by (simp add: inv_objs_def loader_start_def module_start_def glp_create_prob_def)

lemma inv_unset_start: "inv_unset i loader_start"
  by (simp add: inv_unset_def loader_start_def)

lemma parsed_Inr:
  "\<not> isl (load_lines cfg env loader_start f) \<Longrightarrow>
   load_lines cfg env loader_start f = Inr (parsed cfg env f)"
  by (cases "load_lines cfg env loader_start f") (simp_all add: parsed_def)

lemma parsed_inv_objs:
  assumes "\<not> isl (load_lines cfg env loader_start f)"
  shows "inv_objs (parsed cfg env f)"
  using parsed_Inr [OF assms] inv_objs_start _ inv_objs_step
  by (rule load_lines_invariant [where Q = "\<lambda>_. True"]) simp

lemma parsed_inv_unset:
  assumes "\<not> isl (load_lines cfg env loader_start f)" "\<forall>l\<in>set (lines_of f). \<not> sets_x env l i"
  shows "inv_unset i (parsed cfg env f)"
  using parsed_Inr [OF assms(1)] inv_unset_start assms(2) inv_unset_step
  by (rule load_lines_invariant [where Q = "\<lambda>l. \<not> sets_x env l i"])

text \<open>The part of \<open>load_vlp\<close> after the loop.\<close>

lemma fold_set_mat_col_other:
  "mat (fold (\<lambda>j p. if j \<noteq> k then glp_set_mat_col p j m ri (c j) else p) js p0) k = mat p0 k"
  by (induction js arbitrary: p0) (simp_all add: glp_set_mat_col_def)

lemma fold_set_row_bnds_mat:
  "mat (fold (\<lambda>i p. glp_set_row_bnds p (r i) t (a i) (b i)) is p0) = mat p0"
  by (induction "is" arbitrary: p0) (simp_all add: glp_set_row_bnds_def)

lemma load_finish_Inr:
  assumes "load_finish cfg ld = Inr st"
  shows "vlp_init st = vlp_init (os ld) \<and> vobjs st = vobjs (os ld) \<and>
    lambda_idx st = lambda_idx (os ld) \<and>
    mat (P st) (lambda_idx (os ld)) = mat (P (os ld)) (lambda_idx (os ld))"
  using assms
  by (auto simp: load_finish_def Let_def glp_set_obj_coef_def glp_set_obj_dir_def
      fold_set_row_bnds_mat fold_set_mat_col_other simp del: upt_Suc
      split: if_splits option.splits)

lemma double_lt_accepted: "\<not> double_lt x (Finite e) \<longleftrightarrow> accepted e x"
  by (cases x) (auto simp: double_lt_def accepted_def)

lemma load_finish_ok_iff:
  "(\<exists>st. load_finish cfg ld = Inr st) \<longleftrightarrow>
     l_rows ld \<noteq> 0 \<and>
     (\<forall>i\<in>{1..nat (l_objs ld)}. accepted (PolytopeEps cfg) (vlp_init (os ld) ! i))"
proof -
  have "find (\<lambda>i. double_lt (vlp_init (os ld) ! i) (Finite (PolytopeEps cfg)))
          [1..<Suc (nat (l_objs ld))] = None
      \<longleftrightarrow> (\<forall>i\<in>{1..nat (l_objs ld)}. accepted (PolytopeEps cfg) (vlp_init (os ld) ! i))"
    by (auto simp: find_None_iff double_lt_accepted simp del: upt_Suc)
  then show ?thesis
    by (auto simp: load_finish_def Let_def simp del: upt_Suc split: option.splits)
qed

lemma load_vlp_ret_iff:
  assumes "\<not> isl (load_lines cfg env loader_start f)"
  shows "load_vlp_ret cfg env (Some f) = 0 \<longleftrightarrow> (\<exists>st. load_finish cfg (parsed cfg env f) = Inr st)"
  using parsed_Inr [OF assms]
  by (cases "load_finish cfg (parsed cfg env f)") (simp_all add: load_vlp_ret_def load_vlp_start)

text \<open>\<open>load_vlp\<close> leaves the lambda column empty.\<close>

lemma load_vlp_lambda_column:
  assumes "load_vlp cfg env (Some f) = Inr st"
  shows "mat (P st) (lambda_idx st) i = 0"
proof -
  have n: "\<not> isl (load_lines cfg env loader_start f)"
    using assms by (auto simp: load_vlp_start split: sum.splits)
  have fin: "load_finish cfg (parsed cfg env f) = Inr st"
    using assms parsed_Inr [OF n] by (simp add: load_vlp_start)
  show ?thesis
    using load_finish_Inr [OF fin] parsed_inv_objs [OF n] by (simp add: inv_objs_def)
qed

subsection \<open>What load\_vlp hands over to the oracle\<close>

lemma mrandom_less: "1 < v \<Longrightarrow> mrandom r v < v"
  by (simp add: mrandom_def)

lemma perm_fold_distinct:
  assumes "distinct arr" "len < length arr" "set is \<subseteq> {1..<len}"
  shows "distinct (fst (fold (\<lambda>i (a, k). let j = i + mrandom (rand k) (len + 1 - i)
                       in (a[i := a ! j, j := a ! i], k + 1)) is (arr, k0))) \<and>
         length (fst (fold (\<lambda>i (a, k). let j = i + mrandom (rand k) (len + 1 - i)
                       in (a[i := a ! j, j := a ! i], k + 1)) is (arr, k0))) = length arr"
  using assms
proof (induction "is" arbitrary: arr k0)
  case Nil
  then show ?case by simp
next
  case (Cons i "is")
  let ?j = "i + mrandom (rand k0) (len + 1 - i)"
  let ?arr = "arr[i := arr ! ?j, ?j := arr ! i]"
  have i: "1 \<le> i" "i < len" using Cons.prems(3) by auto
  have "mrandom (rand k0) (len + 1 - i) < len + 1 - i" using i by (intro mrandom_less) simp
  then have j: "?j < length arr" using i Cons.prems(2) by simp
  have il: "i < length arr" using i Cons.prems(2) by simp
  have d: "distinct ?arr" using Cons.prems(1) il j by (simp add: distinct_swap)
  have l: "len < length ?arr" using Cons.prems(2) by simp
  have s: "set is \<subseteq> {1..<len}" using Cons.prems(3) by simp
  show ?case using Cons.IH [OF d l s, of "k0 + 1"] by (simp add: Let_def)
qed

lemma perm_array_distinct:
  assumes "distinct arr" "len < length arr"
  shows "distinct (fst (perm_array rand k0 len arr)) \<and>
         length (fst (perm_array rand k0 len arr)) = length arr"
  unfolding perm_array_def using assms by (intro perm_fold_distinct) auto

lemma objidx_distinct:
  assumes "distinct rowidx" "length rowidx = r + ob + 1"
  shows "distinct (tl (fold (\<lambda>i a. a[i := rowidx ! (i + r)]) [1..<Suc ob] (replicate (ob + 1) 0)))"
proof -
  let ?o = "fold (\<lambda>i a. a[i := rowidx ! (i + r)]) [1..<Suc ob] (replicate (ob + 1) 0)"
  have len: "length ?o = ob + 1" by (simp add: length_fold_update del: upt_Suc)
  have nth: "?o ! i = rowidx ! (i + r)" if "1 \<le> i" "i \<le> ob" for i
    using that by (simp add: nth_fold_set_upt del: upt_Suc)
  have "tl ?o = map (\<lambda>i. rowidx ! (i + r)) [1..<Suc ob]"
  proof (rule nth_equalityI)
    show "length (tl ?o) = length (map (\<lambda>i. rowidx ! (i + r)) [1..<Suc ob])"
      by (simp only: length_tl len length_map length_upt)
  next
    fix k assume "k < length (tl ?o)"
    then have k: "k < ob" unfolding length_tl len by simp
    have "k < length (tl ?o)" using k by (simp only: length_tl len)
    then have "tl ?o ! k = ?o ! Suc k" by (rule nth_tl)
    also have "\<dots> = rowidx ! (Suc k + r)" using k by (intro nth) simp_all
    finally show "tl ?o ! k = map (\<lambda>i. rowidx ! (i + r)) [1..<Suc ob] ! k"
      using k by (simp del: upt_Suc)
  qed
  moreover have "distinct (map (\<lambda>i. rowidx ! (i + r)) [1..<Suc ob])"
  proof (subst distinct_map, intro conjI)
    show "distinct [1..<Suc ob]" by simp
    show "inj_on (\<lambda>i. rowidx ! (i + r)) (set [1..<Suc ob])"
    proof (rule inj_onI)
      fix i j assume "i \<in> set [1..<Suc ob]" "j \<in> set [1..<Suc ob]"
        and eq: "rowidx ! (i + r) = rowidx ! (j + r)"
      then have "i + r < length rowidx" "j + r < length rowidx" using assms(2) by auto
      then have "i + r = j + r" using assms(1) eq by (simp add: nth_eq_iff_index_eq)
      then show "i = j" by simp
    qed
  qed
  ultimately show ?thesis by simp
qed

lemma allocate_vlp_arrays:
  assumes "allocate_vlp cfg env rows cols objs ld = Some ld1"
  shows "allocated (os ld1) \<and> distinct (tl (vlp_objidx (os ld1)))"
proof -
  let ?r = "nat rows" and ?c = "nat cols" and ?ob = "nat objs"
  let ?rp = "(if ShuffleMatrix cfg \<noteq> 0
              then perm_array (random env) 0 (?r + ?ob) [0..<?r + ?ob + 1]
              else ([0..<?r + ?ob + 1], 0))"
  have d: "distinct (fst ?rp) \<and> length (fst ?rp) = ?r + ?ob + 1"
    using perm_array_distinct [of "[0..<?r + ?ob + 1]" "?r + ?ob" "random env" 0]
    by (simp del: upt_Suc)
  have o: "vlp_objidx (os ld1) =
      fold (\<lambda>i a. a[i := fst ?rp ! (i + ?r)]) [1..<Suc ?ob] (replicate (?ob + 1) 0)"
    and a: "length (vfacet (os ld1)) = ?ob + 2" "length (vvertex (os ld1)) = ?ob + 2"
      "length (vlp_lambda (os ld1)) = ?ob + 1" "length (vlp_init (os ld1)) = ?ob + 1"
      "vobjs (os ld1) = ?ob"
    using assms
    by (auto simp: allocate_vlp_def Let_def simp del: upt_Suc replicate_Suc
        split: if_splits prod.splits)
  have "distinct (tl (vlp_objidx (os ld1)))"
    unfolding o using d by (intro objidx_distinct) simp_all
  moreover have "length (vlp_objidx (os ld1)) = ?ob + 1"
    unfolding o by (simp add: length_fold_update del: upt_Suc)
  ultimately show ?thesis using a by (simp add: allocated_def)
qed

lemma line_p_arrays:
  assumes "line_p cfg env ld l = Inr ld1"
  shows "allocated (os ld1) \<and> distinct (tl (vlp_objidx (os ld1)))"
proof -
  define r where "r = (if fst (sscanf (scan_lg env) l ''p vlp min %d %d %*d %d %*d'') = 0
     then sscanf (scan_lg env) l ''p vlp max %d %d %*d %d %*d''
     else sscanf (scan_lg env) l ''p vlp min %d %d %*d %d %*d'')"
  define dir :: double
    where "dir = (if fst (sscanf (scan_lg env) l ''p vlp min %d %d %*d %d %*d'') = 0
                  then Finite (- 1) else Finite 1)"
  define direction :: int
    where "direction = (if fst (sscanf (scan_lg env) l ''p vlp min %d %d %*d %d %*d'') = 0 then 1 else 0)"
  define rows cols objs where "rows = int_at (snd r) 0" and "cols = int_at (snd r) 1"
    and "objs = int_at (snd r) 2"
  define ld0 where "ld0 = ld\<lparr>l_rows := rows, l_cols := cols, l_objs := objs, l_dir := dir,
                        os := (os ld)\<lparr>Direction := direction\<rparr>\<rparr>"
  have unfold: "line_p cfg env ld l =
     (if l_rows ld > 0 then Inl Second_p_line
      else if fst r \<noteq> 3 \<or> rows \<le> 1 \<or> cols \<le> 1 \<or> objs < 1 then Inl Wrong_p_line
      else case allocate_vlp cfg env rows cols objs ld0 of
             None \<Rightarrow> Inl Out_of_memory
           | Some ld1 \<Rightarrow>
               Inr (ld1\<lparr>os := (os ld1)\<lparr>P :=
                 glp_set_col_bnds
                   (glp_add_rows (glp_add_cols (P (os ld1)) (nat cols + 1)) (nat rows + nat objs))
                   (lambda_idx (os ld1)) GLP_LO 0 0\<rparr>\<rparr>))"
    unfolding line_p_def Let_def r_def dir_def direction_def rows_def cols_def objs_def ld0_def
    by (rule refl)
  obtain la p where la: "allocate_vlp cfg env rows cols objs ld0 = Some la"
    and ld1: "ld1 = la\<lparr>os := (os la)\<lparr>P := p\<rparr>\<rparr>"
    using assms unfolding unfold by (auto split: if_splits option.splits)
  show ?thesis using allocate_vlp_arrays [OF la] by (simp add: ld1 allocated_def)
qed

lemma line_j_os: "line_j env ld l = Inr ld1 \<Longrightarrow> \<exists>p. os ld1 = (os ld)\<lparr>P := p\<rparr>"
  by (auto simp: line_j_def Let_def split: if_splits option.splits)

lemma line_i_os: "line_i env ld l = Inr ld1 \<Longrightarrow> \<exists>p. os ld1 = (os ld)\<lparr>P := p\<rparr>"
  by (auto simp: line_i_def Let_def split: if_splits option.splits)

lemma line_x_os:
  "line_x env ld l = Inr ld1 \<Longrightarrow> \<exists>k v. os ld1 = (os ld)\<lparr>vlp_init := (vlp_init (os ld))[k := v]\<rparr>"
  by (fastforce simp: line_x_def Let_def split: if_splits)

lemma line_other_arrays:
  assumes "line_j env ld l = Inr ld1 \<or> line_i env ld l = Inr ld1 \<or> line_a env ld l = Inr ld1 \<or>
    line_o env ld l = Inr ld1 \<or> line_x env ld l = Inr ld1"
    and "allocated (os ld) \<and> distinct (tl (vlp_objidx (os ld)))"
  shows "allocated (os ld1) \<and> distinct (tl (vlp_objidx (os ld1)))"
proof -
  from assms(1) consider p where "os ld1 = (os ld)\<lparr>P := p\<rparr>" | "os ld1 = os ld"
    | k v where "os ld1 = (os ld)\<lparr>vlp_init := (vlp_init (os ld))[k := v]\<rparr>"
    using line_j_os [of env ld l ld1] line_i_os [of env ld l ld1] line_x_os [of env ld l ld1]
      line_a_Inr [of env ld l ld1] line_o_Inr [of env ld l ld1] by blast
  then show ?thesis using assms(2) by cases (simp_all add: allocated_def)
qed

lemma line_other_rows:
  assumes "line_j env ld l = Inr ld1 \<or> line_i env ld l = Inr ld1 \<or> line_a env ld l = Inr ld1 \<or>
    line_o env ld l = Inr ld1 \<or> line_x env ld l = Inr ld1"
  shows "l_rows ld \<noteq> 0"
proof
  assume z: "l_rows ld = 0"
  have "line_j env ld l \<noteq> Inr ld1" "line_i env ld l \<noteq> Inr ld1" "line_a env ld l \<noteq> Inr ld1"
    "line_o env ld l \<noteq> Inr ld1" "line_x env ld l \<noteq> Inr ld1"
    by (simp_all add: z line_j_def line_i_def line_a_def line_o_def line_x_def)
  with assms show False by blast
qed

lemma inv_arrays_step:
  assumes "inv_arrays ld" and "True" and "vlp_line cfg env ld l = Inr ld1"
  shows "inv_arrays ld1"
proof -
  have r: "0 \<le> l_rows ld" using assms(1) by (simp add: inv_arrays_def)
  note f = vlp_line_frame [OF assms(3) r]
  from vlp_line_cases [OF assms(3)]
  consider "ld1 = ld" | "line_p cfg env ld l = Inr ld1"
    | "line_j env ld l = Inr ld1 \<or> line_i env ld l = Inr ld1 \<or> line_a env ld l = Inr ld1 \<or>
       line_o env ld l = Inr ld1 \<or> line_x env ld l = Inr ld1" by blast
  then show ?thesis
  proof cases
    case 1
    then show ?thesis using assms(1) by simp
  next
    case 2
    then show ?thesis using line_p_arrays [OF 2] f by (simp add: inv_arrays_def)
  next
    case 3
    have nz: "l_rows ld \<noteq> 0" using 3 by (rule line_other_rows)
    then have "allocated (os ld) \<and> distinct (tl (vlp_objidx (os ld)))"
      using assms(1) by (simp add: inv_arrays_def)
    from line_other_arrays [OF 3 this] f nz show ?thesis by (simp add: inv_arrays_def)
  qed
qed

lemma load_finish_arrays:
  assumes "load_finish cfg ld = Inr st"
  shows "l_rows ld \<noteq> 0 \<and> vfacet st = vfacet (os ld) \<and> vvertex st = vvertex (os ld) \<and>
    vlp_objidx st = vlp_objidx (os ld) \<and> vlp_lambda st = vlp_lambda (os ld) \<and>
    obj_dir (P st) = GLP_MAX"
  using assms
  by (auto simp: load_finish_def Let_def glp_set_obj_dir_def simp del: upt_Suc
      split: if_splits option.splits)

text \<open>
  What \<open>load_vlp\<close> hands over to the oracle: arrays of the allocated sizes, at least
  one objective, pairwise different objective rows, an empty lambda column and the
  direction "maximize". None of this depends on the numbers of the file.
\<close>

lemma load_vlp_state:
  assumes "load_vlp cfg env (Some f) = Inr st"
  shows "allocated st \<and> 1 \<le> vobjs st \<and> distinct (tl (vlp_objidx st)) \<and>
    (\<forall>i. mat (P st) (lambda_idx st) i = 0) \<and> obj_dir (P st) = GLP_MAX"
proof -
  let ?ld = "parsed cfg env f"
  have n: "\<not> isl (load_lines cfg env loader_start f)"
    using assms by (auto simp: load_vlp_start split: sum.splits)
  have fin: "load_finish cfg ?ld = Inr st"
    using assms parsed_Inr [OF n] by (simp add: load_vlp_start)
  have ia: "inv_arrays ?ld"
    using parsed_Inr [OF n] _ _ inv_arrays_step
    by (rule load_lines_invariant [where Q = "\<lambda>_. True"])
       (simp_all add: inv_arrays_def loader_start_def)
  have io: "inv_objs ?ld" using n by (rule parsed_inv_objs)
  note a = load_finish_arrays [OF fin] and b = load_finish_Inr [OF fin]
  have r: "l_rows ?ld \<noteq> 0" using a by simp
  have al: "allocated (os ?ld)" and di: "distinct (tl (vlp_objidx (os ?ld)))"
    using ia r by (simp_all add: inv_arrays_def)
  have ob: "1 \<le> l_objs ?ld" "vobjs (os ?ld) = nat (l_objs ?ld)"
    using io r by (simp_all add: inv_objs_def)
  have 1: "allocated st" using al a b by (simp add: allocated_def)
  have 2: "1 \<le> vobjs st" using ob b by simp
  have 3: "distinct (tl (vlp_objidx st))" using di a by simp
  have 4: "\<forall>i. mat (P st) (lambda_idx st) i = 0"
    using load_vlp_lambda_column [OF assms] by blast
  have 5: "obj_dir (P st) = GLP_MAX" using a by simp
  show ?thesis using 1 2 3 4 5 by blast
qed

text \<open>After a successful load every coordinate of the interior point has passed the check.\<close>

lemma load_vlp_accepted:
  assumes "load_vlp cfg env (Some f) = Inr st"
  shows "\<forall>i\<in>{1..vobjs st}. accepted (PolytopeEps cfg) (vlp_init st ! i)"
proof -
  let ?ld = "parsed cfg env f"
  have n: "\<not> isl (load_lines cfg env loader_start f)"
    using assms by (auto simp: load_vlp_start split: sum.splits)
  have fin: "load_finish cfg ?ld = Inr st"
    using assms parsed_Inr [OF n] by (simp add: load_vlp_start)
  have io: "inv_objs ?ld" using n by (rule parsed_inv_objs)
  have "l_rows ?ld \<noteq> 0 \<and>
      (\<forall>i\<in>{1..nat (l_objs ?ld)}. accepted (PolytopeEps cfg) (vlp_init (os ?ld) ! i))"
    using fin load_finish_ok_iff [of cfg ?ld] by blast
  moreover have "vobjs st = nat (l_objs ?ld)" "vlp_init st = vlp_init (os ?ld)"
    using load_finish_Inr [OF fin] io calculation by (simp_all add: inv_objs_def)
  ultimately show ?thesis by simp
qed

text \<open>
  The same for a loaded problem all of whose numbers are finite, in the terms of
  \<open>ask_oracle\<close> and \<open>initialize_oracle\<close>.
\<close>

lemma load_vlp_finite_state:
  assumes "load_vlp cfg env (Some f) = Inr (finite_state st)"
  shows "allocated st \<and> 1 \<le> vobjs st \<and> distinct (tl (vlp_objidx st)) \<and>
    (\<forall>i. mat (P st) (lambda_idx st) i = 0) \<and> obj_dir (P st) = GLP_MAX \<and>
    (\<forall>i\<in>{1..vobjs st}. PolytopeEps cfg \<le> vlp_init st ! i)"
proof -
  note s = load_vlp_state [OF assms] and a = load_vlp_accepted [OF assms]
  have 1: "allocated st" using s by (simp add: allocated_def finite_state_def)
  have 2: "1 \<le> vobjs st" "distinct (tl (vlp_objidx st))" "obj_dir (P st) = GLP_MAX"
    using s by (simp_all add: finite_state_def finite_prob_def)
  have 3: "\<forall>i. mat (P st) (lambda_idx st) i = 0"
    using s by (simp add: finite_state_def finite_prob_def zero_double_def)
  have len: "length (vlp_init st) = vobjs st + 1" using 1 by (simp add: allocated_def)
  have 4: "PolytopeEps cfg \<le> vlp_init st ! i" if "i \<in> {1..vobjs st}" for i
  proof -
    have "accepted (PolytopeEps cfg) (vlp_init (finite_state st) ! i)"
      using a that by (simp add: finite_state_def)
    moreover have "vlp_init (finite_state st) ! i = Finite (vlp_init st ! i)"
      using that len by (simp add: finite_state_def)
    ultimately show ?thesis by (simp add: accepted_def)
  qed
  show ?thesis using 1 2 3 4 by blast
qed

subsection \<open>Unfolding ask\_oracle on a concrete input\<close>

lemmas ask_eval = ask_oracle_def ask_direction_def call_glp_def simplex_call_def glp_simplex_def
  glp_set_mat_col_def ask_answer_def ask_facet_def facet_raw_def abs_sum_def facet_scale_def
  facet_round_def facet_offset_def eval_vertex_def eval_init_def glp_get_status_def
  glp_get_obj_val_def glp_get_row_dual_def GLP_EBADB_def GLP_ESING_def GLP_EFAIL_def Let_def
  fixed_solver_def ex_cfg_def ex_round_cfg_def ex_state_def ex2_state_def


lemmas init_eval = initialize_oracle_def init_ret_def init_status_def glp_set_obj_dir_def

lemmas load_eval = load_vlp_ret_def load_vlp_def load_finish_def vlp_line_def line_p_def line_j_def
  line_i_def line_a_def line_o_def line_x_def allocate_vlp_def perm_array_def mrandom_def
  M_index_def M_column_def vlp_type_ok_def glp_type_def sscanf_def scan_d_def isspace_def
  isdigit_def dec_value_def input_failure_def int_at_def chr_at_def dbl_at_def decimal_lg_def
  decimal_real_def long_of_def int_of_long_def double_lt_def double_mul_def inf_times_def
  zero_double_def
  module_start_def loader_start_def parsed_def ex_env_def nl_def nextline_eval
  glp_set_mat_col_def glp_set_col_bnds_def glp_set_row_bnds_def glp_add_cols_def glp_add_rows_def
  glp_set_obj_coef_def glp_set_obj_dir_def ex_cfg_def Let_def load_lines.simps lines_of.simps
  sets_x_def first_is_def

subsection \<open>The numbers of the file on concrete inputs\<close>

text \<open>
  \<open>%d\<close> reads a numeral of the range of an \<open>int\<close> as its value, \<open>4294967297\<close> as 1,
  and a numeral beyond the range of a \<open>long\<close> as -1, the low 32 bits of \<open>LONG_MAX\<close>.
  So the line \<open>x 4294967297 0.5\<close> sets the first coordinate of the interior point.
\<close>

lemma int_of_long_id:
  "- 2147483648 \<le> v \<Longrightarrow> v < 2147483648 \<Longrightarrow> int_of_long (long_of v) = v"
  by (simp add: int_of_long_def long_of_def)

lemma scan_d_wraps: "scan_d ''4294967297 0.5'' = Some (1, '' 0.5'')"
  by (simp add: scan_d_def long_of_def int_of_long_def isdigit_def dec_value_def)

lemma scan_d_saturates: "scan_d ''99999999999999999999'' = Some (- 1, [])"
  by (simp add: scan_d_def long_of_def int_of_long_def isdigit_def dec_value_def)

lemma load_wrapped_index:
  "load_vlp_ret ex_cfg ex_env (Some (ex_file_unset @ ''x 4294967297 0.5'' @ nl)) = 0"
  by (simp add: load_eval ex_file_unset_def)

text \<open>
  A file with finite numbers loads to a state with finite numbers, which
  \<open>load_vlp_finite_state\<close> describes in the terms of the oracle.
\<close>

lemma ex_file_loaded: "load_vlp ex_cfg ex_env (Some ex_file) = Inr (finite_state ex_loaded)"
  by (simp add: load_eval ex_file_def ex_loaded_def finite_state_def finite_prob_def fun_eq_iff
      glp_create_prob_def eval_nat_numeral)

lemma ex_loaded_state:
  "allocated ex_loaded \<and> distinct (tl (vlp_objidx ex_loaded)) \<and>
   (\<forall>i. mat (P ex_loaded) (lambda_idx ex_loaded) i = 0) \<and>
   (\<forall>i\<in>{1..vobjs ex_loaded}. PolytopeEps ex_cfg \<le> vlp_init ex_loaded ! i)"
  using load_vlp_finite_state [OF ex_file_loaded] by blast

section \<open>Properties\<close>

text \<open>
  C1. Whenever \<open>ask_oracle\<close> returns \<open>ORACLE_OK\<close>, the returned facet equation
  separates: the query vector, summed over all \<open>vobjs + 1\<close> coordinates, evaluates to
  at most 0, and the interior point evaluates to at least the tolerance
  \<open>PolytopeEps\<close>: offset plus the sum of \<open>vlp_init[i] * vfacet[i-1]\<close> is
  \<open>\<ge> PolytopeEps\<close>. The final check of the source is \<open>d < PolytopeEps\<close>, so the
  value \<open>PolytopeEps\<close> itself passes.
\<close>

theorem ask_oracle_separation:
  assumes "ask_oracle cfg rnd solver st = (ORACLE_OK, st')"
  shows "(\<Sum>i\<le>vobjs st. vvertex st ! i * vfacet st' ! i) \<le> 0 \<and>
         PolytopeEps cfg \<le>
           vfacet st' ! vobjs st + (\<Sum>i = 1..vobjs st. vlp_init st ! i * vfacet st' ! (i - 1))"
proof -
  let ?s = "lp_state solver st"
  let ?f = "facet_final cfg rnd (lp_lambda solver st) ?s"
  have ok: "ask_facet cfg rnd (lp_lambda solver st) ?s = (ORACLE_OK, st')"
    using assms by (rule ask_oracle_OK)
  have f: "vfacet st' = ?f" using ok by (rule ask_facet_OK)
  have v: "eval_vertex ?s ?f \<le> 0" using ok by (rule ask_facet_OK)
  have i: "PolytopeEps cfg \<le> eval_init ?s ?f" using ok by (rule ask_facet_OK)
  show ?thesis
    using v i by (simp add: f eval_vertex_eq eval_init_eq lp_state_keeps)
qed

text \<open>
  The theorem at the query \<open>(15/16, 1)\<close> with the solver reporting \<open>\<lambda> = 3/4\<close> and the
  dual value 16: the answer is \<open>ORACLE_OK\<close>.
\<close>

theorem ask_oracle_separation_witness:
  "fst (ask_oracle ex_cfg id (fixed_solver 0 GLP_OPT (3/4) 16)
         (ex_state [15/16, 1, 0])) = ORACLE_OK \<and>
   (\<Sum>i\<le>vobjs (ex_state [15/16, 1, 0]). vvertex (ex_state [15/16, 1, 0]) ! i *
       vfacet (snd (ask_oracle ex_cfg id (fixed_solver 0 GLP_OPT (3/4) 16)
         (ex_state [15/16, 1, 0]))) ! i) \<le> 0 \<and>
   PolytopeEps ex_cfg \<le>
     vfacet (snd (ask_oracle ex_cfg id (fixed_solver 0 GLP_OPT (3/4) 16)
         (ex_state [15/16, 1, 0]))) ! vobjs (ex_state [15/16, 1, 0]) +
     (\<Sum>i = 1..vobjs (ex_state [15/16, 1, 0]). vlp_init (ex_state [15/16, 1, 0]) ! i *
       vfacet (snd (ask_oracle ex_cfg id (fixed_solver 0 GLP_OPT (3/4) 16)
         (ex_state [15/16, 1, 0]))) ! (i - 1))"
proof -
  let ?r = "ask_oracle ex_cfg id (fixed_solver 0 GLP_OPT (3/4) 16)
              (ex_state [15/16, 1, 0])"
  have ok: "fst ?r = ORACLE_OK"
    by (simp add: ask_eval)
  then have "?r = (ORACLE_OK, snd ?r)" by (simp add: prod_eq_iff)
  from ask_oracle_separation [OF this] ok show ?thesis by simp
qed

text \<open>
  The interior point need not evaluate to strictly more than the tolerance. With the
  tolerance 1/32, the interior point 1, the query \<open>(15/16, 1)\<close> and the solver
  reporting \<open>\<lambda> = 1/2\<close> with the dual value 16, the facet is \<open>(1, -31/32)\<close>; the
  interior point evaluates to exactly 1/32 and the answer is \<open>ORACLE_OK\<close>.
\<close>

theorem ask_oracle_separation_counterexample:
  "fst (ask_oracle ex_cfg id (fixed_solver 0 GLP_OPT (1/2) 16)
         (ex_state [15/16, 1, 0])) = ORACLE_OK \<and>
   \<not> (PolytopeEps ex_cfg <
     vfacet (snd (ask_oracle ex_cfg id (fixed_solver 0 GLP_OPT (1/2) 16)
         (ex_state [15/16, 1, 0]))) ! 1
     + vlp_init (ex_state [15/16, 1, 0]) ! 1 *
       vfacet (snd (ask_oracle ex_cfg id (fixed_solver 0 GLP_OPT (1/2) 16)
         (ex_state [15/16, 1, 0]))) ! 0)"
  by (simp add: ask_eval)



text \<open>
  C3. The solver has returned normally with the status "optimal" and the objective
  value \<open>\<lambda>\<close>. The source tests \<open>\<lambda>\<close> in this order. First \<open>\<lambda> < 10 * PolytopeEps\<close>:
  \<open>ORACLE_FAIL\<close>; for a positive tolerance this covers every \<open>\<lambda>\<close> within
  \<open>PolytopeEps\<close> of 0. Then, for a finite query (last coordinate not 0),
  \<open>\<lambda> > 1 - PolytopeEps\<close>: \<open>ORACLE_FAIL\<close> when \<open>\<lambda> > 1 + PolytopeEps\<close>, and
  \<open>ORACLE_UNBND\<close>, the code for "inside", when not. So a finite query with
  \<open>\<lambda> > 1 + PolytopeEps\<close> fails (the tolerance not negative), and "inside" is returned
  exactly when the query is finite, \<open>10 * PolytopeEps \<le> \<lambda>\<close> and
  \<open>1 - PolytopeEps < \<lambda> \<le> 1 + PolytopeEps\<close>. In every other case the call goes on to
  the facet equation, which gives \<open>ORACLE_OK\<close> or \<open>ORACLE_FAIL\<close>: so it does for a
  finite query with \<open>\<lambda> = 1 - PolytopeEps\<close>, the lower end of the window around 1.
\<close>

theorem ask_oracle_lambda_checks:
  assumes "lp_ret solver st = 0" and "lp_status solver st = GLP_OPT"
  shows "(lp_lambda solver st < 10 * PolytopeEps cfg
           \<longrightarrow> fst (ask_oracle cfg rnd solver st) = ORACLE_FAIL) \<and>
         (0 < PolytopeEps cfg \<and> \<bar>lp_lambda solver st\<bar> \<le> PolytopeEps cfg
           \<longrightarrow> fst (ask_oracle cfg rnd solver st) = ORACLE_FAIL) \<and>
         (0 \<le> PolytopeEps cfg \<and> vvertex st ! vobjs st \<noteq> 0 \<and>
          1 + PolytopeEps cfg < lp_lambda solver st
           \<longrightarrow> fst (ask_oracle cfg rnd solver st) = ORACLE_FAIL) \<and>
         (fst (ask_oracle cfg rnd solver st) = ORACLE_UNBND \<longleftrightarrow>
            vvertex st ! vobjs st \<noteq> 0 \<and> 10 * PolytopeEps cfg \<le> lp_lambda solver st \<and>
            1 - PolytopeEps cfg < lp_lambda solver st \<and>
            lp_lambda solver st \<le> 1 + PolytopeEps cfg) \<and>
         (10 * PolytopeEps cfg \<le> lp_lambda solver st \<and>
          \<not> (vvertex st ! vobjs st \<noteq> 0 \<and> 1 - PolytopeEps cfg < lp_lambda solver st)
           \<longrightarrow> ask_oracle cfg rnd solver st =
                 ask_facet cfg rnd (lp_lambda solver st) (lp_state solver st))"
proof -
  let ?l = "lp_lambda solver st"
  have a: "ask_oracle cfg rnd solver st =
     (if ?l < 10 * PolytopeEps cfg then (ORACLE_FAIL, lp_state solver st)
      else if vvertex st ! vobjs st \<noteq> 0 \<and> ?l > 1 - PolytopeEps cfg
      then (if ?l > 1 + PolytopeEps cfg then (ORACLE_FAIL, lp_state solver st)
            else (ORACLE_UNBND, lp_state solver st))
      else ask_facet cfg rnd ?l (lp_state solver st))"
    using assms
    by (simp add: ask_oracle_eq ask_answer_def lp_status_def lp_lambda_def lp_state_keeps
        Let_def)
  note n = ask_facet_not_inside [of cfg rnd ?l "lp_state solver st"]
  have 1: "?l < 10 * PolytopeEps cfg \<longrightarrow> fst (ask_oracle cfg rnd solver st) = ORACLE_FAIL"
    by (simp add: a)
  have 2: "0 < PolytopeEps cfg \<and> \<bar>?l\<bar> \<le> PolytopeEps cfg
      \<longrightarrow> fst (ask_oracle cfg rnd solver st) = ORACLE_FAIL"
  proof
    assume "0 < PolytopeEps cfg \<and> \<bar>?l\<bar> \<le> PolytopeEps cfg"
    then have "?l < 10 * PolytopeEps cfg" by linarith
    with 1 show "fst (ask_oracle cfg rnd solver st) = ORACLE_FAIL" by blast
  qed
  have 3: "0 \<le> PolytopeEps cfg \<and> vvertex st ! vobjs st \<noteq> 0 \<and> 1 + PolytopeEps cfg < ?l
      \<longrightarrow> fst (ask_oracle cfg rnd solver st) = ORACLE_FAIL"
  proof
    assume h: "0 \<le> PolytopeEps cfg \<and> vvertex st ! vobjs st \<noteq> 0 \<and> 1 + PolytopeEps cfg < ?l"
    then have "1 - PolytopeEps cfg < ?l" by linarith
    with h show "fst (ask_oracle cfg rnd solver st) = ORACLE_FAIL" by (simp add: a)
  qed
  have 4: "fst (ask_oracle cfg rnd solver st) = ORACLE_UNBND \<longleftrightarrow>
      vvertex st ! vobjs st \<noteq> 0 \<and> 10 * PolytopeEps cfg \<le> ?l \<and>
      1 - PolytopeEps cfg < ?l \<and> ?l \<le> 1 + PolytopeEps cfg"
    using n by (auto simp: a)
  have 5: "10 * PolytopeEps cfg \<le> ?l \<and>
      \<not> (vvertex st ! vobjs st \<noteq> 0 \<and> 1 - PolytopeEps cfg < ?l)
      \<longrightarrow> ask_oracle cfg rnd solver st = ask_facet cfg rnd ?l (lp_state solver st)"
    by (auto simp: a)
  show ?thesis using 1 2 3 4 5 by blast
qed

text \<open>
  The cases with the tolerance 1/32 and the finite query \<open>(15/16, 1)\<close>: \<open>\<lambda> = 1/64\<close>
  fails, \<open>\<lambda> = 1\<close> is inside, \<open>\<lambda> = 2\<close> fails, and \<open>\<lambda> = 3/4\<close> goes on to the facet
  equation.
\<close>

theorem ask_oracle_lambda_checks_witness:
  "fst (ask_oracle ex_cfg id (fixed_solver 0 GLP_OPT (1/64) 16) (ex_state [15/16, 1, 0]))
     = ORACLE_FAIL \<and>
   fst (ask_oracle ex_cfg id (fixed_solver 0 GLP_OPT 1 16) (ex_state [15/16, 1, 0]))
     = ORACLE_UNBND \<and>
   fst (ask_oracle ex_cfg id (fixed_solver 0 GLP_OPT 2 16) (ex_state [15/16, 1, 0]))
     = ORACLE_FAIL \<and>
   ask_oracle ex_cfg id (fixed_solver 0 GLP_OPT (3/4) 16) (ex_state [15/16, 1, 0])
     = ask_facet ex_cfg id (3/4)
         (lp_state (fixed_solver 0 GLP_OPT (3/4) 16) (ex_state [15/16, 1, 0]))"
proof -
  let ?st = "ex_state [15/16, 1, 0]"
  have q: "vvertex ?st ! vobjs ?st \<noteq> 0" by (simp add: ex_state_def)
  have r: "lp_ret (fixed_solver 0 GLP_OPT l 16) ?st = 0" for l
    by (simp add: lp_ret_def ask_eval)
  have s: "lp_status (fixed_solver 0 GLP_OPT l 16) ?st = GLP_OPT" for l
    by (simp add: lp_status_def lp_state_def ask_eval)
  have l: "lp_lambda (fixed_solver 0 GLP_OPT l 16) ?st = l" for l
    by (simp add: lp_lambda_def lp_state_def ask_eval)
  have e: "PolytopeEps ex_cfg = 1 / 32" by (simp add: ex_cfg_def)
  have t1: "fst (ask_oracle ex_cfg id (fixed_solver 0 GLP_OPT (1/64) 16) ?st) = ORACLE_FAIL"
    using ask_oracle_lambda_checks [OF r [of "1/64"] s [of "1/64"], of ex_cfg id]
    by (simp add: l e)
  have t2: "fst (ask_oracle ex_cfg id (fixed_solver 0 GLP_OPT 1 16) ?st) = ORACLE_UNBND"
    using ask_oracle_lambda_checks [OF r [of 1] s [of 1], of ex_cfg id] q by (simp add: l e)
  have t3: "fst (ask_oracle ex_cfg id (fixed_solver 0 GLP_OPT 2 16) ?st) = ORACLE_FAIL"
    using ask_oracle_lambda_checks [OF r [of 2] s [of 2], of ex_cfg id] q by (simp add: l e)
  have t4: "ask_oracle ex_cfg id (fixed_solver 0 GLP_OPT (3/4) 16) ?st
      = ask_facet ex_cfg id (3/4) (lp_state (fixed_solver 0 GLP_OPT (3/4) 16) ?st)"
    using ask_oracle_lambda_checks [OF r [of "3/4"] s [of "3/4"], of ex_cfg id] by (simp add: l e)
  show ?thesis using t1 t2 t3 t4 by blast
qed

text \<open>
  "Within the tolerance of 1" does not always give "inside". With the tolerance 1/32,
  the finite query \<open>(15/16, 1)\<close> and \<open>\<lambda> = 31/32 = 1 - PolytopeEps\<close> the call computes
  a facet and returns \<open>ORACLE_OK\<close>. With the tolerance 1/2 and \<open>\<lambda> = 1\<close> the first
  test \<open>\<lambda> < 10 * PolytopeEps\<close> holds and the call returns \<open>ORACLE_FAIL\<close>. In both cases
  the solver has returned 0 with the status "optimal".
\<close>

theorem ask_oracle_lambda_checks_counterexample:
  "lp_ret (fixed_solver 0 GLP_OPT (31/32) 16) (ex_state [15/16, 1, 0]) = 0 \<and>
   lp_status (fixed_solver 0 GLP_OPT (31/32) 16) (ex_state [15/16, 1, 0]) = GLP_OPT \<and>
   lp_lambda (fixed_solver 0 GLP_OPT (31/32) 16) (ex_state [15/16, 1, 0]) = 31/32 \<and>
   vvertex (ex_state [15/16, 1, 0]) ! vobjs (ex_state [15/16, 1, 0]) \<noteq> 0 \<and>
   \<bar>31/32 - 1\<bar> \<le> PolytopeEps ex_cfg \<and>
   fst (ask_oracle ex_cfg id (fixed_solver 0 GLP_OPT (31/32) 16) (ex_state [15/16, 1, 0]))
     = ORACLE_OK \<and>
   lp_ret (fixed_solver 0 GLP_OPT 1 16) (ex_state [15/16, 1, 0]) = 0 \<and>
   lp_status (fixed_solver 0 GLP_OPT 1 16) (ex_state [15/16, 1, 0]) = GLP_OPT \<and>
   lp_lambda (fixed_solver 0 GLP_OPT 1 16) (ex_state [15/16, 1, 0]) = 1 \<and>
   fst (ask_oracle ex_wide_cfg id (fixed_solver 0 GLP_OPT 1 16) (ex_state [15/16, 1, 0]))
     = ORACLE_FAIL"
  by (simp add: lp_ret_def lp_status_def lp_lambda_def lp_state_def ask_eval ex_wide_cfg_def)

text \<open>
  C4. After \<open>ask_oracle\<close>, whatever it returns, the entry of the lambda column in the
  row of objective \<open>i\<close> (\<open>1 \<le> i \<le> vobjs\<close>) is \<open>-vvertex[i-1]\<close> when the last
  coordinate of the query is 0, and \<open>vlp_init[i] - vvertex[i-1]\<close> otherwise. The
  objective rows are pairwise different, as \<open>allocate_vlp\<close> makes them.
\<close>

theorem ask_oracle_lambda_column:
  assumes "allocated st" and "distinct (tl (vlp_objidx st))"
    and "ask_oracle cfg rnd solver st = (r, st')"
    and "1 \<le> i" and "i \<le> vobjs st"
  shows "mat (P st') (lambda_idx st) (vlp_objidx st ! i) =
           (if vvertex st ! vobjs st = 0 then - (vvertex st ! (i - 1))
            else vlp_init st ! i - vvertex st ! (i - 1))"
proof -
  have st': "st' = snd (ask_answer cfg rnd (lp_ret solver st) (lp_state solver st))"
    using assms(3) by (simp add: ask_oracle_eq)
  have len: "length (vlp_objidx st) = Suc (vobjs st)" "i < length (vlp_lambda st)"
    using assms(1,5) by (simp_all add: allocated_def)
  have inj: "inj_on (\<lambda>k. vlp_objidx st ! k) {1..<Suc (vobjs st)}"
    using assms(2) len(1) by (rule distinct_tl_inj)
  have "mat (P st') (lambda_idx st) (vlp_objidx st ! i) = ask_direction st ! i"
    using fold_fun_upd_inj [OF inj, of i "ask_direction st" "\<lambda>_. 0"] assms(4,5)
    by (simp add: st' ask_answer_keeps lp_state_mat glp_set_mat_col_def del: upt_Suc)
  also have "\<dots> = direction st i"
    using assms(4,5) len(2) by (rule nth_ask_direction)
  finally show ?thesis by (simp add: direction_def)
qed

text \<open>
  A finite query with one objective, where the entry is \<open>1 - 15/16\<close>, and an ideal query
  with two objectives, where the entry of the second objective is \<open>-0\<close>.
\<close>

theorem ask_oracle_lambda_column_witness:
  "mat (P (snd (ask_oracle ex_cfg id (fixed_solver 0 GLP_OPT (1/2) 16) (ex_state [15/16, 1, 0]))))
     3 3 = 1 - 15/16 \<and>
   mat (P (snd (ask_oracle ex_cfg id (fixed_solver 0 GLP_UNBND 0 0) (ex2_state [1, 0, 0, 0]))))
     3 4 = - 0"
proof -
  let ?st = "ex_state [15/16, 1, 0]" and ?st2 = "ex2_state [1, 0, 0, 0]"
  let ?a = "ask_oracle ex_cfg id (fixed_solver 0 GLP_OPT (1/2) 16) ?st"
  let ?b = "ask_oracle ex_cfg id (fixed_solver 0 GLP_UNBND 0 0) ?st2"
  have al: "allocated ?st" "allocated ?st2"
    by (simp_all add: allocated_def ex2_state_def ex_state_def)
  have d: "distinct (tl (vlp_objidx ?st))" "distinct (tl (vlp_objidx ?st2))"
    by (simp_all add: ex2_state_def ex_state_def)
  have a: "?a = (fst ?a, snd ?a)" and b: "?b = (fst ?b, snd ?b)" by simp_all
  have i1: "(1::nat) \<le> 1" "1 \<le> vobjs ?st" by (simp_all add: ex_state_def)
  have i2: "(1::nat) \<le> 2" "2 \<le> vobjs ?st2" by (simp_all add: ex2_state_def)
  show ?thesis
    using ask_oracle_lambda_column [OF al(1) d(1) a i1]
      ask_oracle_lambda_column [OF al(2) d(2) b i2]
    by (simp add: ex_state_def ex2_state_def)
qed

text \<open>
  C5. Whenever \<open>ask_oracle\<close> returns \<open>ORACLE_OK\<close>, the returned offset is
  \<open>-\<Sum> g[i] * (interior[i] - \<lambda> * d[i])\<close>, computed from the returned normal
  coefficients \<open>g\<close>, the objective value \<open>\<lambda>\<close> and the direction vector \<open>d\<close>, and
  then passed through \<open>round_to\<close> when \<open>RoundFacets\<close> is set. The same formula, with
  \<open>d[i] = -query[i]\<close>, is used when the query is an ideal point.
\<close>

theorem ask_oracle_offset:
  assumes "allocated st" and "ask_oracle cfg rnd solver st = (ORACLE_OK, st')"
  shows "vfacet st' ! vobjs st =
           (if RoundFacets cfg \<noteq> 0 then rnd else (\<lambda>x. x))
             (- (\<Sum>i = 1..vobjs st. vfacet st' ! (i - 1) *
                   (vlp_init st ! i - lp_lambda solver st * direction st i))) \<and>
         (vvertex st ! vobjs st = 0 \<longrightarrow>
          vfacet st' ! vobjs st =
           (if RoundFacets cfg \<noteq> 0 then rnd else (\<lambda>x. x))
             (- (\<Sum>i = 1..vobjs st. vfacet st' ! (i - 1) *
                   (vlp_init st ! i - lp_lambda solver st * (- (vvertex st ! (i - 1)))))))"
proof -
  let ?s = "lp_state solver st" and ?l = "lp_lambda solver st"
  let ?f3 = "facet_round cfg rnd (vobjs ?s)
         (facet_scale (vobjs ?s) (abs_sum (vobjs ?s) (facet_raw ?s)) (facet_raw ?s))"
  have n: "vobjs ?s = vobjs st" by (rule lp_state_keeps)
  have ok: "ask_facet cfg rnd ?l ?s = (ORACLE_OK, st')"
    using assms(2) by (rule ask_oracle_OK)
  have f: "vfacet st' = facet_final cfg rnd ?l ?s" using ok by (rule ask_facet_OK)
  have len: "vobjs ?s < length (vfacet ?s)"
    using assms(1) by (simp add: allocated_def lp_state_keeps)
  have last: "vfacet st' ! vobjs st = facet_offset cfg rnd ?l ?s ?f3"
    using nth_facet_final_last [OF len, of cfg rnd ?l] by (simp add: f n)
  have sum: "(\<Sum>i = 1..vobjs st. ?f3 ! (i - 1) * (vlp_init ?s ! i - ?l * vlp_lambda ?s ! i)) =
      (\<Sum>i = 1..vobjs st. vfacet st' ! (i - 1) * (vlp_init st ! i - ?l * direction st i))"
  proof (rule sum.cong [OF refl])
    fix i assume i: "i \<in> {1..vobjs st}"
    then have "i - 1 < vobjs ?s" by (auto simp: n)
    then have "vfacet st' ! (i - 1) = ?f3 ! (i - 1)"
      unfolding f by (rule nth_facet_final_lt)
    moreover have "vlp_lambda ?s ! i = direction st i"
      using i assms(1) by (simp add: lp_state_keeps nth_ask_direction allocated_def)
    ultimately show "?f3 ! (i - 1) * (vlp_init ?s ! i - ?l * vlp_lambda ?s ! i) =
        vfacet st' ! (i - 1) * (vlp_init st ! i - ?l * direction st i)"
      by (simp add: lp_state_keeps)
  qed
  have main: "vfacet st' ! vobjs st =
           (if RoundFacets cfg \<noteq> 0 then rnd else (\<lambda>x. x))
             (- (\<Sum>i = 1..vobjs st. vfacet st' ! (i - 1) *
                   (vlp_init st ! i - ?l * direction st i)))"
    using sum by (simp add: last facet_offset_eq n)
  have ideal: "direction st i = - (vvertex st ! (i - 1))" if "vvertex st ! vobjs st = 0" for i
    using that by (simp add: direction_def)
  show ?thesis
  proof (intro conjI impI)
    show "vfacet st' ! vobjs st =
           (if RoundFacets cfg \<noteq> 0 then rnd else (\<lambda>x. x))
             (- (\<Sum>i = 1..vobjs st. vfacet st' ! (i - 1) *
                   (vlp_init st ! i - ?l * direction st i)))" by (rule main)
  next
    assume "vvertex st ! vobjs st = 0"
    then show "vfacet st' ! vobjs st =
           (if RoundFacets cfg \<noteq> 0 then rnd else (\<lambda>x. x))
             (- (\<Sum>i = 1..vobjs st. vfacet st' ! (i - 1) *
                   (vlp_init st ! i - ?l * (- (vvertex st ! (i - 1))))))"
      using main by (simp add: ideal)
  qed
qed

text \<open>
  A finite query with two objectives and the ideal query \<open>(-1, 0)\<close> with one objective,
  both without rounding.
\<close>

theorem ask_oracle_offset_witness:
  "fst (ask_oracle ex_cfg id (fixed_solver 0 GLP_OPT (1/3) (- 2/3)) (ex2_state [1, 1, 1, 0]))
     = ORACLE_OK \<and>
   vfacet (snd (ask_oracle ex_cfg id (fixed_solver 0 GLP_OPT (1/3) (- 2/3))
       (ex2_state [1, 1, 1, 0]))) ! 2 =
     - (vfacet (snd (ask_oracle ex_cfg id (fixed_solver 0 GLP_OPT (1/3) (- 2/3))
            (ex2_state [1, 1, 1, 0]))) ! 0 * (1/4 - 1/3 * (1/4 - 1)) +
        vfacet (snd (ask_oracle ex_cfg id (fixed_solver 0 GLP_OPT (1/3) (- 2/3))
            (ex2_state [1, 1, 1, 0]))) ! 1 * (1/4 - 1/3 * (1/4 - 1))) \<and>
   fst (ask_oracle ex_cfg id (fixed_solver 0 GLP_OPT (1/2) 16) (ex_state [- 1, 0, 0]))
     = ORACLE_OK \<and>
   vfacet (snd (ask_oracle ex_cfg id (fixed_solver 0 GLP_OPT (1/2) 16) (ex_state [- 1, 0, 0]))) ! 1
     = - (vfacet (snd (ask_oracle ex_cfg id (fixed_solver 0 GLP_OPT (1/2) 16)
            (ex_state [- 1, 0, 0]))) ! 0 * (1 - 1/2 * (- (- 1))))"
proof -
  let ?st = "ex2_state [1, 1, 1, 0]" and ?st1 = "ex_state [- 1, 0, 0]"
  let ?a = "ask_oracle ex_cfg id (fixed_solver 0 GLP_OPT (1/3) (- 2/3)) ?st"
  let ?b = "ask_oracle ex_cfg id (fixed_solver 0 GLP_OPT (1/2) 16) ?st1"
  have al: "allocated ?st" "allocated ?st1"
    by (simp_all add: allocated_def ex2_state_def ex_state_def)
  have oka: "fst ?a = ORACLE_OK" by (simp add: ask_eval eval_nat_numeral)
  then have a: "?a = (ORACLE_OK, snd ?a)" by (simp add: prod_eq_iff)
  have okb: "fst ?b = ORACLE_OK" by (simp add: ask_eval)
  then have b: "?b = (ORACLE_OK, snd ?b)" by (simp add: prod_eq_iff)
  have la: "lp_lambda (fixed_solver 0 GLP_OPT l d) ?st = l" for l d
    by (simp add: lp_lambda_def lp_state_def ask_eval)
  have lb: "lp_lambda (fixed_solver 0 GLP_OPT (1/2) 16) ?st1 = 1/2"
    by (simp add: lp_lambda_def lp_state_def ask_eval)
  have q: "vvertex ?st1 ! vobjs ?st1 = 0" by (simp add: ex_state_def)
  have c: "RoundFacets ex_cfg = 0" by (simp add: ex_cfg_def)
  have na: "vobjs ?st = Suc (Suc 0)" "direction ?st (Suc 0) = 1/4 - 1"
    "direction ?st (Suc (Suc 0)) = 1/4 - 1"
    "vlp_init ?st ! Suc 0 = 1/4" "vlp_init ?st ! Suc (Suc 0) = 1/4"
    by (simp_all add: ex2_state_def direction_def)
  have nb: "vobjs ?st1 = Suc 0" "vlp_init ?st1 ! Suc 0 = 1" "vvertex ?st1 ! 0 = - 1"
    by (simp_all add: ex_state_def)
  have t1: "vfacet (snd ?a) ! 2 =
     - (vfacet (snd ?a) ! 0 * (1/4 - 1/3 * (1/4 - 1)) + vfacet (snd ?a) ! 1 * (1/4 - 1/3 * (1/4 - 1)))"
    using ask_oracle_offset [OF al(1) a, THEN conjunct1]
    by (simp add: c la na eval_nat_numeral)
  have t2: "vfacet (snd ?b) ! 1 = - (vfacet (snd ?b) ! 0 * (1 - 1/2 * (- (- 1))))"
    using ask_oracle_offset [OF al(2) b, THEN conjunct2, rule_format, OF q]
    by (simp add: c lb nb)
  show ?thesis using oka okb t1 t2 by blast
qed

text \<open>
  With a rounding that takes a value within 1/1000 of a multiple of 1/32 to that
  multiple, the query \<open>(15/16, 1)\<close> and the solver reporting \<open>\<lambda> = 501/1000\<close>, the
  formula gives \<open>-15499/16000\<close>; the returned offset is its rounded value \<open>-31/32\<close>,
  and the answer is \<open>ORACLE_OK\<close>.
\<close>

theorem ask_oracle_offset_counterexample:
  "fst (ask_oracle ex_round_cfg (snap 32 (1/1000)) (fixed_solver 0 GLP_OPT (501/1000) 16)
       (ex_state [15/16, 1, 0])) = ORACLE_OK \<and>
   vfacet (snd (ask_oracle ex_round_cfg (snap 32 (1/1000)) (fixed_solver 0 GLP_OPT (501/1000) 16)
       (ex_state [15/16, 1, 0]))) ! 1 \<noteq>
   - (vfacet (snd (ask_oracle ex_round_cfg (snap 32 (1/1000)) (fixed_solver 0 GLP_OPT (501/1000) 16)
       (ex_state [15/16, 1, 0]))) ! 0 *
      (vlp_init (ex_state [15/16, 1, 0]) ! 1 -
         501/1000 * (vlp_init (ex_state [15/16, 1, 0]) ! 1 - vvertex (ex_state [15/16, 1, 0]) ! 0)))"
  by (simp add: ask_eval snap_def round_def)

text \<open>
  C6. When the solver returns normally and reports the status "unbounded",
  \<open>ask_oracle\<close> answers \<open>ORACLE_UNBND\<close> (the query is inside) if the query is an ideal
  point, that is, its last coordinate is 0, and \<open>ORACLE_FAIL\<close> if the query is finite.
  Every other status that is neither "optimal" nor "unbounded" gives \<open>ORACLE_FAIL\<close>.
\<close>

theorem ask_oracle_unbounded:
  assumes "lp_ret solver st = 0"
  shows "(lp_status solver st = GLP_UNBND \<and> vvertex st ! vobjs st = 0
           \<longrightarrow> fst (ask_oracle cfg rnd solver st) = ORACLE_UNBND) \<and>
         (lp_status solver st = GLP_UNBND \<and> vvertex st ! vobjs st \<noteq> 0
           \<longrightarrow> fst (ask_oracle cfg rnd solver st) = ORACLE_FAIL) \<and>
         (lp_status solver st \<noteq> GLP_UNBND \<and> lp_status solver st \<noteq> GLP_OPT
           \<longrightarrow> fst (ask_oracle cfg rnd solver st) = ORACLE_FAIL)"
  using assms
  by (simp add: ask_oracle_eq ask_answer_def lp_status_def lp_state_keeps Let_def)

text \<open>
  The three cases at concrete inputs: the ideal query \<open>(1, 0)\<close> and the finite query
  \<open>(15/16, 1)\<close> with the status "unbounded", and the finite query with the status
  "no feasible solution".
\<close>

theorem ask_oracle_unbounded_witness:
  "(lp_ret (fixed_solver 0 GLP_UNBND 0 0) (ex_state [1, 0, 0]) = 0 \<and>
    lp_status (fixed_solver 0 GLP_UNBND 0 0) (ex_state [1, 0, 0]) = GLP_UNBND \<and>
    vvertex (ex_state [1, 0, 0]) ! vobjs (ex_state [1, 0, 0]) = 0 \<and>
    fst (ask_oracle ex_cfg id (fixed_solver 0 GLP_UNBND 0 0) (ex_state [1, 0, 0]))
      = ORACLE_UNBND) \<and>
   (lp_ret (fixed_solver 0 GLP_UNBND 0 0) (ex_state [15/16, 1, 0]) = 0 \<and>
    lp_status (fixed_solver 0 GLP_UNBND 0 0) (ex_state [15/16, 1, 0]) = GLP_UNBND \<and>
    vvertex (ex_state [15/16, 1, 0]) ! vobjs (ex_state [15/16, 1, 0]) \<noteq> 0 \<and>
    fst (ask_oracle ex_cfg id (fixed_solver 0 GLP_UNBND 0 0) (ex_state [15/16, 1, 0]))
      = ORACLE_FAIL) \<and>
   (lp_ret (fixed_solver 0 GLP_NOFEAS 0 0) (ex_state [15/16, 1, 0]) = 0 \<and>
    lp_status (fixed_solver 0 GLP_NOFEAS 0 0) (ex_state [15/16, 1, 0]) = GLP_NOFEAS \<and>
    fst (ask_oracle ex_cfg id (fixed_solver 0 GLP_NOFEAS 0 0) (ex_state [15/16, 1, 0]))
      = ORACLE_FAIL)"
proof -
  have r1: "lp_ret (fixed_solver 0 GLP_UNBND 0 0) (ex_state [1, 0, 0]) = 0"
    by (simp add: lp_ret_def ask_eval)
  have s1: "lp_status (fixed_solver 0 GLP_UNBND 0 0) (ex_state [1, 0, 0]) = GLP_UNBND"
    by (simp add: lp_status_def lp_state_def ask_eval)
  have q1: "vvertex (ex_state [1, 0, 0]) ! vobjs (ex_state [1, 0, 0]) = 0"
    by (simp add: ex_state_def)
  have r2: "lp_ret (fixed_solver 0 GLP_UNBND 0 0) (ex_state [15/16, 1, 0]) = 0"
    by (simp add: lp_ret_def ask_eval)
  have s2: "lp_status (fixed_solver 0 GLP_UNBND 0 0) (ex_state [15/16, 1, 0]) = GLP_UNBND"
    by (simp add: lp_status_def lp_state_def ask_eval)
  have q2: "vvertex (ex_state [15/16, 1, 0]) ! vobjs (ex_state [15/16, 1, 0]) \<noteq> 0"
    by (simp add: ex_state_def)
  have r3: "lp_ret (fixed_solver 0 GLP_NOFEAS 0 0) (ex_state [15/16, 1, 0]) = 0"
    by (simp add: lp_ret_def ask_eval)
  have s3: "lp_status (fixed_solver 0 GLP_NOFEAS 0 0) (ex_state [15/16, 1, 0]) = GLP_NOFEAS"
    by (simp add: lp_status_def lp_state_def ask_eval)
  show ?thesis
    using ask_oracle_unbounded [OF r1, of ex_cfg id]
      ask_oracle_unbounded [OF r2, of ex_cfg id]
      ask_oracle_unbounded [OF r3, of ex_cfg id]
      r1 s1 q1 r2 s2 q2 r3 s3
    by simp
qed

text \<open>
  C7. \<open>initialize_oracle\<close> sets the objective direction to \<open>GLP_MIN\<close> and calls the
  solver. A nonzero return code gives \<open>ORACLE_FAIL\<close>; the status "no feasible solution"
  gives \<open>ORACLE_EMPTY\<close>; any other status that is not "optimal" gives \<open>ORACLE_FAIL\<close>;
  "optimal" gives \<open>ORACLE_OK\<close>. The direction is \<open>GLP_MAX\<close> on return exactly when
  the answer is \<open>ORACLE_OK\<close>, and \<open>GLP_MIN\<close> otherwise. The lambda column is all zero on
  entry, as \<open>load_vlp\<close> leaves it, and the solver is only consulted on minimisation
  problems with an all-zero lambda column: two solvers that agree on these give the
  same result.
\<close>

theorem initialize_oracle_outcomes:
  assumes "\<forall>i. mat (P st) (lambda_idx st) i = 0"
  shows "(init_ret solver st \<noteq> 0 \<longrightarrow> fst (initialize_oracle solver st) = ORACLE_FAIL) \<and>
         (init_ret solver st = 0 \<and> init_status solver st = GLP_NOFEAS
            \<longrightarrow> fst (initialize_oracle solver st) = ORACLE_EMPTY) \<and>
         (init_ret solver st = 0 \<and> init_status solver st \<noteq> GLP_NOFEAS \<and>
          init_status solver st \<noteq> GLP_OPT
            \<longrightarrow> fst (initialize_oracle solver st) = ORACLE_FAIL) \<and>
         (init_ret solver st = 0 \<and> init_status solver st = GLP_OPT
            \<longrightarrow> fst (initialize_oracle solver st) = ORACLE_OK) \<and>
         obj_dir (P (snd (initialize_oracle solver st))) =
           (if fst (initialize_oracle solver st) = ORACLE_OK then GLP_MAX else GLP_MIN) \<and>
         ((\<forall>k p. obj_dir p = GLP_MIN \<and> (\<forall>i. mat p (lambda_idx st) i = 0)
                   \<longrightarrow> solver k p = solver' k p)
            \<longrightarrow> initialize_oracle solver st = initialize_oracle solver' st)"
proof -
  let ?st1 = "st\<lparr>P := glp_set_obj_dir (P st) GLP_MIN\<rparr>"
  obtain r st2 where c: "call_glp solver ?st1 = (r, st2)" by (cases "call_glp solver ?st1")
  have k: "keeps ?st1 st2" using c by (rule call_glp_keeps)
  then have d: "obj_dir (P st2) = GLP_MIN"
    by (simp add: keeps_def glp_set_obj_dir_def)
  have codes: "(init_ret solver st \<noteq> 0 \<longrightarrow> fst (initialize_oracle solver st) = ORACLE_FAIL) \<and>
         (init_ret solver st = 0 \<and> init_status solver st = GLP_NOFEAS
            \<longrightarrow> fst (initialize_oracle solver st) = ORACLE_EMPTY) \<and>
         (init_ret solver st = 0 \<and> init_status solver st \<noteq> GLP_NOFEAS \<and>
          init_status solver st \<noteq> GLP_OPT
            \<longrightarrow> fst (initialize_oracle solver st) = ORACLE_FAIL) \<and>
         (init_ret solver st = 0 \<and> init_status solver st = GLP_OPT
            \<longrightarrow> fst (initialize_oracle solver st) = ORACLE_OK)"
    using c by (simp add: initialize_oracle_def init_ret_def init_status_def Let_def)
  have dir: "obj_dir (P (snd (initialize_oracle solver st))) =
           (if fst (initialize_oracle solver st) = ORACLE_OK then GLP_MAX else GLP_MIN)"
    using c d by (simp add: initialize_oracle_def Let_def glp_set_obj_dir_def)
  have same: "initialize_oracle solver st = initialize_oracle solver' st"
    if agree: "\<forall>k p. obj_dir p = GLP_MIN \<and> (\<forall>i. mat p (lambda_idx st) i = 0)
                   \<longrightarrow> solver k p = solver' k p"
  proof -
    have "call_glp solver ?st1 = call_glp solver' ?st1"
    proof (rule call_glp_cong)
      fix k p assume "same_problem (P ?st1) p"
      then have "obj_dir p = GLP_MIN" "mat p = mat (P st)"
        by (simp_all add: same_problem_def glp_set_obj_dir_def)
      then show "solver k p = solver' k p" using agree assms by simp
    qed
    then show ?thesis by (simp add: initialize_oracle_def)
  qed
  show ?thesis using codes dir same by blast
qed

text \<open>
  The return code 3, and the statuses "no feasible solution", "unbounded" and "optimal"
  with the return code 0; and a solver that fails on every maximisation problem.
\<close>

theorem initialize_oracle_outcomes_witness:
  "fst (initialize_oracle (fixed_solver 3 GLP_UNDEF 0 0) (ex_state [1, 0, 0])) = ORACLE_FAIL \<and>
   fst (initialize_oracle (fixed_solver 0 GLP_NOFEAS 0 0) (ex_state [1, 0, 0])) = ORACLE_EMPTY \<and>
   obj_dir (P (snd (initialize_oracle (fixed_solver 0 GLP_NOFEAS 0 0) (ex_state [1, 0, 0]))))
     = GLP_MIN \<and>
   fst (initialize_oracle (fixed_solver 0 GLP_UNBND 0 0) (ex_state [1, 0, 0])) = ORACLE_FAIL \<and>
   fst (initialize_oracle (fixed_solver 0 GLP_OPT 0 0) (ex_state [1, 0, 0])) = ORACLE_OK \<and>
   obj_dir (P (snd (initialize_oracle (fixed_solver 0 GLP_OPT 0 0) (ex_state [1, 0, 0]))))
     = GLP_MAX \<and>
   initialize_oracle (fixed_solver 0 GLP_OPT 0 0) (ex_state [1, 0, 0]) =
     initialize_oracle (min_only (fixed_solver 0 GLP_OPT 0 0) (fixed_solver 5 GLP_UNDEF 0 0))
       (ex_state [1, 0, 0])"
proof -
  let ?st = "ex_state [1, 0, 0]"
  have z: "\<forall>i. mat (P ?st) (lambda_idx ?st) i = 0"
    by (simp add: ex_state_def glp_create_prob_def)
  have r: "init_ret (fixed_solver c s 0 0) ?st = c" for c s
    by (simp add: init_eval ask_eval)
  have s: "init_status (fixed_solver 0 s 0 0) ?st = s" for s
    by (simp add: init_eval ask_eval)
  have agree: "\<forall>k p. obj_dir p = GLP_MIN \<and> (\<forall>i. mat p (lambda_idx ?st) i = 0) \<longrightarrow>
      fixed_solver 0 GLP_OPT 0 0 k p =
      min_only (fixed_solver 0 GLP_OPT 0 0) (fixed_solver 5 GLP_UNDEF 0 0) k p"
    by (simp add: min_only_def)
  have t1: "fst (initialize_oracle (fixed_solver 3 GLP_UNDEF 0 0) ?st) = ORACLE_FAIL"
    using initialize_oracle_outcomes [OF z, of "fixed_solver 3 GLP_UNDEF 0 0"] by (simp add: r)
  have t2: "fst (initialize_oracle (fixed_solver 0 GLP_NOFEAS 0 0) ?st) = ORACLE_EMPTY"
    using initialize_oracle_outcomes [OF z, of "fixed_solver 0 GLP_NOFEAS 0 0"] by (simp add: r s)
  have t3: "fst (initialize_oracle (fixed_solver 0 GLP_UNBND 0 0) ?st) = ORACLE_FAIL"
    using initialize_oracle_outcomes [OF z, of "fixed_solver 0 GLP_UNBND 0 0"] by (simp add: r s)
  have t4: "fst (initialize_oracle (fixed_solver 0 GLP_OPT 0 0) ?st) = ORACLE_OK"
    using initialize_oracle_outcomes [OF z, of "fixed_solver 0 GLP_OPT 0 0"] by (simp add: r s)
  have d2: "obj_dir (P (snd (initialize_oracle (fixed_solver 0 GLP_NOFEAS 0 0) ?st))) = GLP_MIN"
    using initialize_oracle_outcomes [OF z, of "fixed_solver 0 GLP_NOFEAS 0 0"] t2 by simp
  have d4: "obj_dir (P (snd (initialize_oracle (fixed_solver 0 GLP_OPT 0 0) ?st))) = GLP_MAX"
    using initialize_oracle_outcomes [OF z, of "fixed_solver 0 GLP_OPT 0 0"] t4 by simp
  have t5: "initialize_oracle (fixed_solver 0 GLP_OPT 0 0) ?st =
     initialize_oracle (min_only (fixed_solver 0 GLP_OPT 0 0) (fixed_solver 5 GLP_UNDEF 0 0)) ?st"
    using initialize_oracle_outcomes [OF z, of "fixed_solver 0 GLP_OPT 0 0"
        "min_only (fixed_solver 0 GLP_OPT 0 0) (fixed_solver 5 GLP_UNDEF 0 0)"] agree
    by blast
  show ?thesis using t1 t2 t3 t4 d2 d4 t5 by blast
qed

text \<open>
  C8. For a file that the loop of \<open>load_vlp\<close> reads to the end without an error,
  \<open>load_vlp\<close> returns 0 exactly when the file has a \<open>p\<close> line and no coordinate
  \<open>vlp_init[1..objs]\<close> of the interior point compares less than \<open>PolytopeEps\<close>;
  otherwise it returns 1. The test of the source is \<open>vlp_init[i] < PolytopeEps\<close>. It
  lets through a finite value that is at least \<open>PolytopeEps\<close> (the value
  \<open>PolytopeEps\<close> itself is accepted), the positive infinity, and a NaN, for which
  every comparison is false. So after a successful load every coordinate is one of
  these. A coordinate that no \<open>x\<close> line sets stays 0, and with a positive
  \<open>PolytopeEps\<close> the load fails.
\<close>

theorem load_vlp_interior_point:
  assumes "\<not> isl (load_lines cfg env loader_start f)"
  shows "(load_vlp_ret cfg env (Some f) = 0 \<longleftrightarrow>
            l_rows (parsed cfg env f) \<noteq> 0 \<and>
            (\<forall>i\<in>{1..nat (l_objs (parsed cfg env f))}.
                accepted (PolytopeEps cfg) (vlp_init (os (parsed cfg env f)) ! i))) \<and>
         (load_vlp_ret cfg env (Some f) = 0 \<or> load_vlp_ret cfg env (Some f) = 1) \<and>
         (\<forall>st. load_vlp cfg env (Some f) = Inr st \<longrightarrow>
            (\<forall>i\<in>{1..vobjs st}.
                vlp_init st ! i = NaN \<or> vlp_init st ! i = Pos_inf \<or>
                (\<exists>r. vlp_init st ! i = Finite r \<and> PolytopeEps cfg \<le> r))) \<and>
         (0 < PolytopeEps cfg \<and> 1 \<le> k \<and> k \<le> nat (l_objs (parsed cfg env f)) \<and>
          (\<forall>l\<in>set (lines_of f). \<not> sets_x env l k)
            \<longrightarrow> load_vlp_ret cfg env (Some f) = 1)"
proof -
  let ?ld = "parsed cfg env f"
  have iff: "load_vlp_ret cfg env (Some f) = 0 \<longleftrightarrow>
      l_rows ?ld \<noteq> 0 \<and>
      (\<forall>i\<in>{1..nat (l_objs ?ld)}. accepted (PolytopeEps cfg) (vlp_init (os ?ld) ! i))"
    using load_vlp_ret_iff [OF assms] load_finish_ok_iff [of cfg ?ld] by simp
  have two: "load_vlp_ret cfg env (Some f) = 0 \<or> load_vlp_ret cfg env (Some f) = 1"
    by (simp add: load_vlp_ret_def split: sum.splits)
  have ok: "\<forall>i\<in>{1..vobjs st}.
      vlp_init st ! i = NaN \<or> vlp_init st ! i = Pos_inf \<or>
      (\<exists>r. vlp_init st ! i = Finite r \<and> PolytopeEps cfg \<le> r)"
    if st: "load_vlp cfg env (Some f) = Inr st" for st
  proof
    fix i assume "i \<in> {1..vobjs st}"
    then have "accepted (PolytopeEps cfg) (vlp_init st ! i)"
      using load_vlp_accepted [OF st] by blast
    then show "vlp_init st ! i = NaN \<or> vlp_init st ! i = Pos_inf \<or>
        (\<exists>r. vlp_init st ! i = Finite r \<and> PolytopeEps cfg \<le> r)"
      by (cases "vlp_init st ! i") (simp_all add: accepted_def)
  qed
  have unset: "load_vlp_ret cfg env (Some f) = 1"
    if h: "0 < PolytopeEps cfg" "1 \<le> k" "k \<le> nat (l_objs ?ld)"
      "\<forall>l\<in>set (lines_of f). \<not> sets_x env l k"
  proof -
    have iu: "inv_unset k ?ld" using assms h(4) by (rule parsed_inv_unset)
    have "load_vlp_ret cfg env (Some f) \<noteq> 0"
    proof
      assume "load_vlp_ret cfg env (Some f) = 0"
      then have r: "l_rows ?ld \<noteq> 0"
        and a: "\<forall>i\<in>{1..nat (l_objs ?ld)}.
                 accepted (PolytopeEps cfg) (vlp_init (os ?ld) ! i)"
        using iff by simp_all
      have "vlp_init (os ?ld) ! k = 0" using iu r h(3) by (simp add: inv_unset_def)
      moreover have "accepted (PolytopeEps cfg) (vlp_init (os ?ld) ! k)"
        using a h(2,3) by simp
      ultimately show False using h(1) by (simp add: accepted_def zero_double_def)
    qed
    then show ?thesis using two by blast
  qed
  show ?thesis using iff two ok unset by blast
qed

text \<open>
  With the tolerance 1/32, the file with \<open>x 1 0.03125\<close> loads and so does the file
  with \<open>x 1 nan\<close>; the file without an \<open>x\<close> line does not.
\<close>

theorem load_vlp_interior_point_witness:
  "load_vlp_ret ex_cfg ex_env (Some ex_file) = 0 \<and>
   accepted (PolytopeEps ex_cfg) (vlp_init (os (parsed ex_cfg ex_env ex_file)) ! 1) \<and>
   load_vlp_ret ex_cfg ex_env (Some ex_file_nan) = 0 \<and>
   load_vlp_ret ex_cfg ex_env (Some ex_file_unset) = 1"
proof -
  have p1: "\<not> isl (load_lines ex_cfg ex_env loader_start ex_file)"
    by (simp add: load_eval ex_file_def)
  have p2: "\<not> isl (load_lines ex_cfg ex_env loader_start ex_file_unset)"
    by (simp add: load_eval ex_file_unset_def)
  have p3: "\<not> isl (load_lines ex_cfg ex_env loader_start ex_file_nan)"
    by (simp add: load_eval ex_file_nan_def)
  have r1: "l_rows (parsed ex_cfg ex_env ex_file) \<noteq> 0"
    and n1: "nat (l_objs (parsed ex_cfg ex_env ex_file)) = Suc 0"
    and v1: "accepted (PolytopeEps ex_cfg)
               (vlp_init (os (parsed ex_cfg ex_env ex_file)) ! Suc 0)"
    by (simp_all add: load_eval accepted_def ex_file_def)
  have n2: "nat (l_objs (parsed ex_cfg ex_env ex_file_unset)) = Suc 0"
    by (simp add: load_eval ex_file_unset_def)
  have r3: "l_rows (parsed ex_cfg ex_env ex_file_nan) \<noteq> 0"
    and n3: "nat (l_objs (parsed ex_cfg ex_env ex_file_nan)) = Suc 0"
    and v3: "accepted (PolytopeEps ex_cfg)
               (vlp_init (os (parsed ex_cfg ex_env ex_file_nan)) ! Suc 0)"
    by (simp_all add: load_eval accepted_def ex_file_nan_def)
  have e: "0 < PolytopeEps ex_cfg" by (simp add: ex_cfg_def)
  have x: "\<forall>l\<in>set (lines_of ex_file_unset). \<not> sets_x ex_env l (Suc 0)"
    by (simp add: load_eval ex_file_unset_def)
  have t1: "load_vlp_ret ex_cfg ex_env (Some ex_file) = 0"
    using load_vlp_interior_point [OF p1, THEN conjunct1] r1 v1 by (simp add: n1)
  have t2: "load_vlp_ret ex_cfg ex_env (Some ex_file_unset) = 1"
    using load_vlp_interior_point [OF p2, THEN conjunct2, THEN conjunct2, THEN conjunct2,
        of "Suc 0"] e x
    by (simp add: n2)
  have t3: "load_vlp_ret ex_cfg ex_env (Some ex_file_nan) = 0"
    using load_vlp_interior_point [OF p3, THEN conjunct1] r3 v3 by (simp add: n3)
  show ?thesis using t1 t2 t3 v1 by simp
qed

text \<open>
  A coordinate need not exceed the tolerance for the load to succeed. With the
  tolerance 1/32 the file with \<open>x 1 0.03125\<close> loads, with the coordinate equal to the
  tolerance, and the file with \<open>x 1 nan\<close> loads, with a coordinate that is not a
  number.
\<close>

theorem load_vlp_interior_point_counterexample:
  "load_vlp_ret ex_cfg ex_env (Some ex_file) = 0 \<and>
   vlp_init (projr (load_vlp ex_cfg ex_env (Some ex_file))) ! 1 = Finite (1 / 32) \<and>
   \<not> PolytopeEps ex_cfg < 1 / 32 \<and>
   load_vlp_ret ex_cfg ex_env (Some ex_file_nan) = 0 \<and>
   vlp_init (projr (load_vlp ex_cfg ex_env (Some ex_file_nan))) ! 1 = NaN"
  by (simp add: load_eval ex_file_def ex_file_nan_def)

text \<open>
  C9. A line that starts with \<open>e\<close> is meant to end the data. In \<open>load_vlp\<close> the
  \<open>break\<close> of \<open>case 'e'\<close> only leaves the \<open>switch\<close>, so the lines after it are read
  like all others. The file below loads; with one more line after its \<open>e\<close> line the
  load fails (an interior-point coordinate below the tolerance, or an unknown line),
  or succeeds with another interior point.
\<close>

theorem load_vlp_end_marker_ignored:
  "load_vlp_ret ex_cfg ex_env (Some ex_file) = 0 \<and>
   load_vlp_ret ex_cfg ex_env (Some (ex_file @ ''x 1 0.01'' @ nl)) = 1 \<and>
   load_vlp_ret ex_cfg ex_env (Some (ex_file @ ''z'' @ nl)) = 1 \<and>
   vlp_init (projr (load_vlp ex_cfg ex_env (Some ex_file))) ! 1 = Finite (1 / 32) \<and>
   vlp_init (projr (load_vlp ex_cfg ex_env (Some (ex_file @ ''x 1 0.5'' @ nl)))) ! 1
     = Finite (1 / 2)"
  by (simp add: load_eval ex_file_def)

text \<open>
  C10. \<open>nextline\<close> cuts every line after 80 characters, counted after the leading
  blanks are dropped, runs of blanks are merged and capitals are turned into small
  letters: it returns the first 80 characters of what the same reader without the
  limit returns, with the same return value (1 for a line, 0 at the end of the file)
  and the same position in the file. The characters beyond the 80th are read and
  dropped; no error is signalled, and the caller gets the 80-character prefix.
  (Lemma \<open>nextline_unlimited_normalised\<close>: the line without the limit has no blank at
  either end, no two blanks in a row and no capital letter.)
\<close>

theorem nextline_truncates:
  "nextline f = (case nextline_unlimited f of (r, v, f') \<Rightarrow> (r, take 80 v, f'))"
  using nextline_from_take [of "[]" False f]
  by (simp add: nextline_def nextline_unlimited_def MAX_LINELEN_def)
end
